theory Spec2Isabelle
  imports Main "HOL-Library.Log_Nat"
begin

section \<open>Typed content model (content-types.ts)\<close>

text \<open>
  The enum \<open>ContentType\<close> is string-valued: at run time a kind is the string itself, and
  the code guards against strings outside the enum (\<open>default: throw\<close>,
  \<open>if (contentByType[item.type])\<close>). The six members are therefore string constants.
\<close>

definition PHOTO :: string where "PHOTO = ''photo''"
definition DOCUMENT :: string where "DOCUMENT = ''document''"
definition CODE :: string where "CODE = ''code''"
definition NOTE :: string where "NOTE = ''note''"
definition ART :: string where "ART = ''art''"
definition LINK :: string where "LINK = ''link''"

definition ContentType :: "string list" where
  "ContentType = [PHOTO, DOCUMENT, CODE, NOTE, ART, LINK]"

text \<open>
  A Firestore time value: a \<open>Timestamp\<close> (read with \<open>toMillis()\<close>) or the write-only
  sentinel that \<open>serverTimestamp()\<close> returns.
\<close>

datatype FieldValue = Timestamp int | ServerTimestamp

type_synonym dimensions = "int \<times> int"
type_synonym location = "int \<times> int \<times> string option"

text \<open>
  One flat record carries the fields of \<open>BaseContent\<close> and of the six variants. The code
  handles content as plain objects (\<open>DocumentData\<close>, \<open>Omit<T, 'id'>\<close>, \<open>Partial<T>\<close>,
  casts with \<open>as\<close>), so every field may be missing: \<open>None\<close> is \<open>undefined\<close>. The time
  fields are numbers in a \<open>Content\<close> and Firestore values in a \<open>DocumentData\<close>. The
  numbers of content are copied, and a time is tested for zero; they are carried as
  integers. The field \<open>id\<close> is named \<open>id_c\<close>.
\<close>

record 't Fields =
  id_c :: "string option"
  userId :: "string option"
  title :: "string option"
  description :: "string option"
  tags :: "string list option"
  createdAt :: "'t option"
  updatedAt :: "'t option"
  type :: "string option"
  isFavorite :: "bool option"
  isPublic :: "bool option"
  collections :: "string list option"
  storageRef :: "string option"
  thumbnailRef :: "string option"
  dimensions :: "dimensions option"
  location :: "location option"
  camera :: "string option"
  fileType :: "string option"
  fileSize :: "int option"
  previewRef :: "string option"
  language :: "string option"
  code :: "string option"
  runnable :: "bool option"
  content :: "string option"
  color :: "string option"
  medium :: "string option"
  url :: "string option"
  favicon :: "string option"
  ogImage :: "string option"
  siteName :: "string option"

type_synonym Content = "int Fields"
type_synonym DocumentData = "FieldValue Fields"

text \<open>The object literal \<open>{}\<close>.\<close>

definition no_fields :: "'t Fields" where
  "no_fields = \<lparr> id_c = None, userId = None, title = None, description = None, tags = None,
     createdAt = None, updatedAt = None, type = None, isFavorite = None, isPublic = None,
     collections = None, storageRef = None, thumbnailRef = None, dimensions = None,
     location = None, camera = None, fileType = None, fileSize = None, previewRef = None,
     language = None, code = None, runnable = None, content = None, color = None,
     medium = None, url = None, favicon = None, ogImage = None, siteName = None \<rparr>"

text \<open>One field of a spread \<open>{...a, ...b}\<close>: the later object wins where it has the field.\<close>

definition override :: "'a option \<Rightarrow> 'a option \<Rightarrow> 'a option" where
  "override a b = (case b of None \<Rightarrow> a | Some v \<Rightarrow> Some v)"

text \<open>\<open>{ ...item, ...updates }\<close>\<close>

definition spread :: "'t Fields \<Rightarrow> 't Fields \<Rightarrow> 't Fields" where
  "spread item updates = \<lparr>
     id_c = override (id_c item) (id_c updates),
     userId = override (userId item) (userId updates),
     title = override (title item) (title updates),
     description = override (description item) (description updates),
     tags = override (tags item) (tags updates),
     createdAt = override (createdAt item) (createdAt updates),
     updatedAt = override (updatedAt item) (updatedAt updates),
     type = override (type item) (type updates),
     isFavorite = override (isFavorite item) (isFavorite updates),
     isPublic = override (isPublic item) (isPublic updates),
     collections = override (collections item) (collections updates),
     storageRef = override (storageRef item) (storageRef updates),
     thumbnailRef = override (thumbnailRef item) (thumbnailRef updates),
     dimensions = override (dimensions item) (dimensions updates),
     location = override (location item) (location updates),
     camera = override (camera item) (camera updates),
     fileType = override (fileType item) (fileType updates),
     fileSize = override (fileSize item) (fileSize updates),
     previewRef = override (previewRef item) (previewRef updates),
     language = override (language item) (language updates),
     code = override (code item) (code updates),
     runnable = override (runnable item) (runnable updates),
     content = override (content item) (content updates),
     color = override (color item) (color updates),
     medium = override (medium item) (medium updates),
     url = override (url item) (url updates),
     favicon = override (favicon item) (favicon updates),
     ogImage = override (ogImage item) (ogImage updates),
     siteName = override (siteName item) (siteName updates) \<rparr>"

text \<open>\<open>x || ''\<close>, \<open>x || []\<close> and \<open>x || false\<close>: an array is always truthy, the empty string is not.\<close>

definition or_string :: "string option \<Rightarrow> string" where
  "or_string x = (case x of None \<Rightarrow> [] | Some v \<Rightarrow> if v = [] then [] else v)"

definition or_list :: "'a list option \<Rightarrow> 'a list" where
  "or_list x = (case x of None \<Rightarrow> [] | Some v \<Rightarrow> v)"

definition or_false :: "bool option \<Rightarrow> bool" where
  "or_false x = (case x of None \<Rightarrow> False | Some v \<Rightarrow> v)"

subsection \<open>JavaScript numbers\<close>

text \<open>
  \<open>contentCount\<close> is a JavaScript number, read from the remote as it is, and the store
  computes with it (\<open>+ 1\<close>, \<open>- 1\<close>, \<open>> 0\<close>). A number is a double: a finite value, which is
  a rational, one of the two infinities, or NaN. The two zeros are one value here: nothing
  the store does tells them apart.
\<close>

datatype Number = Finite rat | PosInfinity | NegInfinity | NaN

definition pow2 :: "int \<Rightarrow> rat" where
  "pow2 e = (if 0 \<le> e then 2 ^ nat e else 1 / 2 ^ nat (- e))"

text \<open>Rounding to the nearest integer, a tie going to the even one.\<close>

definition round_half_even :: "rat \<Rightarrow> int" where
  "round_half_even q =
     (let f = \<lfloor>q\<rfloor>; r = q - of_int f in
      if r < 1 / 2 then f else if 1 / 2 < r then f + 1 else if even f then f else f + 1)"

text \<open>The binary exponent of a positive rational \<open>a\<close>: the \<open>e\<close> with \<open>2^e \<le> a < 2^(e+1)\<close>.\<close>

definition exponent :: "rat \<Rightarrow> int" where
  "exponent a =
     (let d = bitlen (fst (quotient_of a)) - bitlen (snd (quotient_of a)) in
      if pow2 d \<le> a then d else d - 1)"

text \<open>
  The double nearest to a rational (53 significant bits, ties to even, exponents from
  \<open>-1022\<close>, overflow to infinity from \<open>2^1024\<close>): what an arithmetic operation on doubles
  returns for its exact result.
\<close>

definition round_double :: "rat \<Rightarrow> Number" where
  "round_double x =
     (if x = 0 then Finite 0
      else
        (let a = \<bar>x\<bar>;
             u = pow2 (max (exponent a) (- 1022) - 52);
             r = of_int (round_half_even (a / u)) * u in
         if pow2 1024 \<le> r then (if 0 < x then PosInfinity else NegInfinity)
         else Finite (if 0 < x then r else - r)))"

text \<open>\<open>x + y\<close>, \<open>x - y\<close>, \<open>x > y\<close> and \<open>x >= y\<close> on numbers.\<close>

definition js_add :: "Number \<Rightarrow> Number \<Rightarrow> Number" where
  "js_add x y =
     (case x of
        NaN \<Rightarrow> NaN
      | PosInfinity \<Rightarrow> (case y of NaN \<Rightarrow> NaN | NegInfinity \<Rightarrow> NaN | _ \<Rightarrow> PosInfinity)
      | NegInfinity \<Rightarrow> (case y of NaN \<Rightarrow> NaN | PosInfinity \<Rightarrow> NaN | _ \<Rightarrow> NegInfinity)
      | Finite a \<Rightarrow>
          (case y of
             Finite b \<Rightarrow> round_double (a + b)
           | PosInfinity \<Rightarrow> PosInfinity
           | NegInfinity \<Rightarrow> NegInfinity
           | NaN \<Rightarrow> NaN))"

definition js_sub :: "Number \<Rightarrow> Number \<Rightarrow> Number" where
  "js_sub x y =
     (case x of
        NaN \<Rightarrow> NaN
      | PosInfinity \<Rightarrow> (case y of NaN \<Rightarrow> NaN | PosInfinity \<Rightarrow> NaN | _ \<Rightarrow> PosInfinity)
      | NegInfinity \<Rightarrow> (case y of NaN \<Rightarrow> NaN | NegInfinity \<Rightarrow> NaN | _ \<Rightarrow> NegInfinity)
      | Finite a \<Rightarrow>
          (case y of
             Finite b \<Rightarrow> round_double (a - b)
           | PosInfinity \<Rightarrow> NegInfinity
           | NegInfinity \<Rightarrow> PosInfinity
           | NaN \<Rightarrow> NaN))"

definition js_gt :: "Number \<Rightarrow> Number \<Rightarrow> bool" where
  "js_gt x y =
     (case x of
        NaN \<Rightarrow> False
      | PosInfinity \<Rightarrow> (case y of NaN \<Rightarrow> False | PosInfinity \<Rightarrow> False | _ \<Rightarrow> True)
      | NegInfinity \<Rightarrow> False
      | Finite a \<Rightarrow>
          (case y of Finite b \<Rightarrow> b < a | NegInfinity \<Rightarrow> True | _ \<Rightarrow> False))"

definition js_ge :: "Number \<Rightarrow> Number \<Rightarrow> bool" where
  "js_ge x y =
     (case x of
        NaN \<Rightarrow> False
      | PosInfinity \<Rightarrow> (case y of NaN \<Rightarrow> False | _ \<Rightarrow> True)
      | NegInfinity \<Rightarrow> (case y of NegInfinity \<Rightarrow> True | _ \<Rightarrow> False)
      | Finite a \<Rightarrow>
          (case y of Finite b \<Rightarrow> b \<le> a | NegInfinity \<Rightarrow> True | _ \<Rightarrow> False))"

text \<open>\<open>Number.isInteger(x)\<close> and \<open>Number.isSafeInteger(x)\<close>.\<close>

definition isInteger :: "Number \<Rightarrow> bool" where
  "isInteger x = (case x of Finite r \<Rightarrow> r = of_int \<lfloor>r\<rfloor> | _ \<Rightarrow> False)"

definition isSafeInteger :: "Number \<Rightarrow> bool" where
  "isSafeInteger x =
     (case x of Finite r \<Rightarrow> r = of_int \<lfloor>r\<rfloor> \<and> \<bar>r\<bar> \<le> 2 ^ 53 - 1 | _ \<Rightarrow> False)"

subsection \<open>Collections\<close>

text \<open>
  \<open>ContentCollection\<close> follows its interface; the fields it shares with content carry the
  suffix \<open>_col\<close>. \<open>Partial<ContentCollection>\<close> is the record of the same fields, each
  optional, with the suffix \<open>_upd\<close>.
\<close>

record ContentCollection =
  id_col :: string
  userId_col :: string
  name :: string
  description_col :: "string option"
  coverImage :: "string option"
  createdAt_col :: int
  updatedAt_col :: int
  contentCount :: Number
  isPublic_col :: bool
  color_col :: "string option"

record CollectionUpdates =
  id_upd :: "string option"
  userId_upd :: "string option"
  name_upd :: "string option"
  description_upd :: "string option"
  coverImage_upd :: "string option"
  createdAt_upd :: "int option"
  updatedAt_upd :: "int option"
  contentCount_upd :: "Number option"
  isPublic_upd :: "bool option"
  color_upd :: "string option"

definition no_updates :: CollectionUpdates where
  "no_updates = \<lparr> id_upd = None, userId_upd = None, name_upd = None, description_upd = None,
     coverImage_upd = None, createdAt_upd = None, updatedAt_upd = None,
     contentCount_upd = None, isPublic_upd = None, color_upd = None \<rparr>"

definition replace :: "'a \<Rightarrow> 'a option \<Rightarrow> 'a" where
  "replace a b = (case b of None \<Rightarrow> a | Some v \<Rightarrow> v)"

text \<open>\<open>{ ...item, ...updates }\<close> on a collection.\<close>

definition spread_col :: "ContentCollection \<Rightarrow> CollectionUpdates \<Rightarrow> ContentCollection" where
  "spread_col item updates = \<lparr>
     id_col = replace (id_col item) (id_upd updates),
     userId_col = replace (userId_col item) (userId_upd updates),
     name = replace (name item) (name_upd updates),
     description_col = override (description_col item) (description_upd updates),
     coverImage = override (coverImage item) (coverImage_upd updates),
     createdAt_col = replace (createdAt_col item) (createdAt_upd updates),
     updatedAt_col = replace (updatedAt_col item) (updatedAt_upd updates),
     contentCount = replace (contentCount item) (contentCount_upd updates),
     isPublic_col = replace (isPublic_col item) (isPublic_upd updates),
     color_col = override (color_col item) (color_upd updates) \<rparr>"

section \<open>The content store (content-store.ts)\<close>

text \<open>
  An \<open>Error\<close> value carries its message; a \<open>TypeError\<close> is what the runtime raises when an
  \<open>undefined\<close> array is spread or mapped.
\<close>

datatype Error = Error string | TypeError string

text \<open>
  The remote calls of content-service.ts that the store awaits. Firestore is outside the
  store: each asynchronous action takes the outcome of its remote call as an argument
  (\<open>Inl\<close> the rejection, \<open>Inr\<close> the resolved value), and the state records the calls made, in
  order, in the field \<open>gatewayCalls\<close>.
\<close>

datatype GatewayCall =
    CreateContent Content
  | UpdateContent string Content
  | DeleteContent string
  | CreateCollection ContentCollection
  | UpdateCollection string CollectionUpdates
  | DeleteCollection string

text \<open>
  The state of the store. \<open>contentByType\<close> is an object literal: the map holds its own
  keys, and \<open>get_property\<close> below reads it as the code does, own keys first and then the
  names that every object inherits. The store's \<open>collections\<close> is named
  \<open>collections_store\<close>; the two subscription handles are left out.
\<close>

record Store =
  allContent :: "Content list"
  contentByType :: "string \<rightharpoonup> Content list"
  collections_store :: "ContentCollection list"
  selectedContent :: "Content option"
  selectedCollection :: "ContentCollection option"
  isLoading :: bool
  error :: "Error option"
  gatewayCalls :: "GatewayCall list"

text \<open>The six empty buckets, written out in \<open>initialize\<close>, \<open>loadContent\<close> and the initial state.\<close>

definition emptyByType :: "string \<rightharpoonup> Content list" where
  "emptyByType = [PHOTO \<mapsto> [], DOCUMENT \<mapsto> [], CODE \<mapsto> [], NOTE \<mapsto> [], ART \<mapsto> [], LINK \<mapsto> []]"

definition initial_state :: Store where
  "initial_state = \<lparr> allContent = [], contentByType = emptyByType, collections_store = [],
     selectedContent = None, selectedCollection = None, isLoading = False, error = None,
     gatewayCalls = [] \<rparr>"

text \<open>A property key: \<open>obj[undefined]\<close> reads the key \<open>"undefined"\<close>.\<close>

definition key_of :: "string option \<Rightarrow> string" where
  "key_of t = (case t of None \<Rightarrow> ''undefined'' | Some k \<Rightarrow> k)"

text \<open>
  The property names of \<open>Object.prototype\<close>, which an object literal inherits. Each of them
  reads as a function or an object: a truthy value that is not an array.
\<close>

definition Object_prototype :: "string list" where
  "Object_prototype =
     [''constructor'', ''__defineGetter__'', ''__defineSetter__'', ''hasOwnProperty'',
      ''__lookupGetter__'', ''__lookupSetter__'', ''isPrototypeOf'', ''propertyIsEnumerable'',
      ''toString'', ''valueOf'', ''__proto__'', ''toLocaleString'']"

text \<open>\<open>obj[key]\<close>: an own property, an inherited one, or \<open>undefined\<close>.\<close>

datatype 'a Property = Own 'a | Inherited | Undefined

definition get_property :: "(string \<rightharpoonup> 'a) \<Rightarrow> string \<Rightarrow> 'a Property" where
  "get_property obj k =
     (case obj k of
        Some v \<Rightarrow> Own v
      | None \<Rightarrow> if k \<in> set Object_prototype then Inherited else Undefined)"

text \<open>
  The body of \<open>content.forEach\<close>. The guard \<open>if (contentByType[item.type])\<close> passes for an
  array, even an empty one, and for an inherited property; \<open>.push\<close> on the latter is not a
  function and raises.
\<close>

definition push_item ::
  "Content \<Rightarrow> (string \<rightharpoonup> Content list) \<Rightarrow> Error + (string \<rightharpoonup> Content list)" where
  "push_item item byType =
     (case get_property byType (key_of (type item)) of
        Own bucket \<Rightarrow> Inr (byType(key_of (type item) \<mapsto> bucket @ [item]))
      | Inherited \<Rightarrow> Inl (TypeError ''contentByType[item.type].push is not a function'')
      | Undefined \<Rightarrow> Inr byType)"

text \<open>The loop \<open>content.forEach\<close> over the six empty buckets: it stops at the first raise.\<close>

primrec forEach_push ::
  "Content list \<Rightarrow> (string \<rightharpoonup> Content list) \<Rightarrow> Error + (string \<rightharpoonup> Content list)" where
  "forEach_push [] byType = Inr byType"
| "forEach_push (item # rest) byType =
     (case push_item item byType of
        Inl e \<Rightarrow> Inl e
      | Inr byType' \<Rightarrow> forEach_push rest byType')"

definition groupByType :: "Content list \<Rightarrow> Error + (string \<rightharpoonup> Content list)" where
  "groupByType snapshot = forEach_push snapshot emptyByType"

text \<open>
  The callback that \<open>initialize\<close> hands to \<open>subscribeToUserContent\<close>. It has no \<open>try\<close>: when
  the loop raises, \<open>set\<close> is not reached and the state is as it was.
\<close>

definition content_callback :: "Content list \<Rightarrow> Store \<Rightarrow> (Error + unit) \<times> Store" where
  "content_callback snapshot s =
     (case groupByType snapshot of
        Inl e \<Rightarrow> (Inl e, s)
      | Inr byType \<Rightarrow>
          (Inr (), s\<lparr> allContent := snapshot, contentByType := byType, isLoading := False \<rparr>))"

text \<open>The callback that \<open>initialize\<close> hands to \<open>subscribeToUserCollections\<close>.\<close>

definition collections_callback :: "ContentCollection list \<Rightarrow> Store \<Rightarrow> Store" where
  "collections_callback cols s = s\<lparr> collections_store := cols, isLoading := False \<rparr>"

text \<open>\<open>item => item.id === contentId\<close>\<close>

definition has_id :: "string \<Rightarrow> 't Fields \<Rightarrow> bool" where
  "has_id contentId item = (id_c item = Some contentId)"

definition has_id_col :: "string \<Rightarrow> ContentCollection \<Rightarrow> bool" where
  "has_id_col collectionId item = (id_col item = collectionId)"

text \<open>\<open>!contentId\<close> holds for \<open>null\<close> and for the empty string.\<close>

definition selectContent :: "string option \<Rightarrow> Store \<Rightarrow> Store" where
  "selectContent contentId s =
     (case contentId of
        None \<Rightarrow> s\<lparr> selectedContent := None \<rparr>
      | Some cid \<Rightarrow>
          if cid = [] then s\<lparr> selectedContent := None \<rparr>
          else s\<lparr> selectedContent := find (has_id cid) (allContent s) \<rparr>)"

definition selectCollection :: "string option \<Rightarrow> Store \<Rightarrow> Store" where
  "selectCollection collectionId s =
     (case collectionId of
        None \<Rightarrow> s\<lparr> selectedCollection := None \<rparr>
      | Some cid \<Rightarrow>
          if cid = [] then s\<lparr> selectedCollection := None \<rparr>
          else s\<lparr> selectedCollection := find (has_id_col cid) (collections_store s) \<rparr>)"

text \<open>
  The \<open>catch\<close> block shared by the asynchronous actions:
  \<open>set({ error, isLoading: false }); throw error\<close>.
\<close>

definition fail :: "Error \<Rightarrow> Store \<Rightarrow> (Error + 'a) \<times> Store" where
  "fail e s = (Inl e, s\<lparr> error := Some e, isLoading := False \<rparr>)"

text \<open>\<open>set({ isLoading: true, error: null })\<close> followed by the remote call.\<close>

definition begin_call :: "GatewayCall \<Rightarrow> Store \<Rightarrow> Store" where
  "begin_call c s = s\<lparr> isLoading := True, error := None, gatewayCalls := gatewayCalls s @ [c] \<rparr>"

text \<open>
  \<open>addContent\<close>: spreading what is not an array (\<open>undefined\<close>, or an inherited function or
  object) raises a TypeError inside the \<open>try\<close>.
\<close>

definition addContent :: "Error + Content \<Rightarrow> Content \<Rightarrow> Store \<Rightarrow> (Error + Content) \<times> Store" where
  "addContent created newItem s0 =
     (let s = begin_call (CreateContent newItem) s0 in
      case created of
        Inl e \<Rightarrow> fail e s
      | Inr newContent \<Rightarrow>
          (case get_property (contentByType s) (key_of (type newContent)) of
             Own bucket \<Rightarrow>
               (Inr newContent,
                s\<lparr> allContent := allContent s @ [newContent],
                   contentByType := (contentByType s)(key_of (type newContent) \<mapsto> bucket @ [newContent]),
                   isLoading := False \<rparr>)
           | Inherited \<Rightarrow> fail (TypeError ''contentByType[newContent.type] is not iterable'') s
           | Undefined \<Rightarrow> fail (TypeError ''contentByType[newContent.type] is not iterable'') s))"

definition edit_item :: "string \<Rightarrow> 't Fields \<Rightarrow> 't Fields \<Rightarrow> 't Fields" where
  "edit_item contentId updates item = (if has_id contentId item then spread item updates else item)"

text \<open>
  \<open>editContent\<close>: \<open>set\<close> is called only inside \<open>if (itemToUpdate)\<close>; \<open>.map\<close> on what is not
  an array raises a TypeError inside the \<open>try\<close>.
\<close>

definition editContent :: "Error + unit \<Rightarrow> string \<Rightarrow> Content \<Rightarrow> Store \<Rightarrow> (Error + unit) \<times> Store" where
  "editContent updated contentId updates s0 =
     (let s = begin_call (UpdateContent contentId updates) s0 in
      case updated of
        Inl e \<Rightarrow> fail e s
      | Inr _ \<Rightarrow>
          (let updatedAll = map (edit_item contentId updates) (allContent s) in
           case find (has_id contentId) (allContent s) of
             None \<Rightarrow> (Inr (), s)
           | Some itemToUpdate \<Rightarrow>
               (case get_property (contentByType s) (key_of (type itemToUpdate)) of
                  Inherited \<Rightarrow>
                    fail (TypeError ''updatedByType[itemToUpdate.type].map is not a function'') s
                | Undefined \<Rightarrow> fail (TypeError ''updatedByType[itemToUpdate.type] is undefined'') s
                | Own bucket \<Rightarrow>
                    (Inr (),
                     s\<lparr> allContent := updatedAll,
                        contentByType := (contentByType s)(key_of (type itemToUpdate) \<mapsto>
                          map (edit_item contentId updates) bucket),
                        selectedContent :=
                          (case selectedContent s of
                             None \<Rightarrow> None
                           | Some sel \<Rightarrow>
                               if has_id contentId sel then Some (spread sel updates) else Some sel),
                        isLoading := False \<rparr>))))"

text \<open>\<open>removeContent\<close>\<close>

definition removeContent :: "Error + unit \<Rightarrow> string \<Rightarrow> Store \<Rightarrow> (Error + unit) \<times> Store" where
  "removeContent deleted contentId s0 =
     (let s = begin_call (DeleteContent contentId) s0 in
      case deleted of
        Inl e \<Rightarrow> fail e s
      | Inr _ \<Rightarrow>
          (let updatedAll = filter (\<lambda>item. \<not> has_id contentId item) (allContent s) in
           case find (has_id contentId) (allContent s) of
             None \<Rightarrow> (Inr (), s)
           | Some itemToRemove \<Rightarrow>
               (case get_property (contentByType s) (key_of (type itemToRemove)) of
                  Inherited \<Rightarrow>
                    fail (TypeError ''updatedByType[itemToRemove.type].filter is not a function'') s
                | Undefined \<Rightarrow> fail (TypeError ''updatedByType[itemToRemove.type] is undefined'') s
                | Own bucket \<Rightarrow>
                    (Inr (),
                     s\<lparr> allContent := updatedAll,
                        contentByType := (contentByType s)(key_of (type itemToRemove) \<mapsto>
                          filter (\<lambda>item. \<not> has_id contentId item) bucket),
                        selectedContent :=
                          (case selectedContent s of
                             None \<Rightarrow> None
                           | Some sel \<Rightarrow> if has_id contentId sel then None else Some sel),
                        isLoading := False \<rparr>))))"

text \<open>\<open>addCollection\<close>, \<open>editCollection\<close>, \<open>removeCollection\<close>\<close>

definition addCollection ::
  "Error + ContentCollection \<Rightarrow> ContentCollection \<Rightarrow> Store \<Rightarrow> (Error + ContentCollection) \<times> Store" where
  "addCollection created col s0 =
     (let s = begin_call (CreateCollection col) s0 in
      case created of
        Inl e \<Rightarrow> fail e s
      | Inr newCollection \<Rightarrow>
          (Inr newCollection,
           s\<lparr> collections_store := collections_store s @ [newCollection], isLoading := False \<rparr>))"

definition edit_col :: "string \<Rightarrow> CollectionUpdates \<Rightarrow> ContentCollection \<Rightarrow> ContentCollection" where
  "edit_col collectionId updates item =
     (if has_id_col collectionId item then spread_col item updates else item)"

definition editCollection ::
  "Error + unit \<Rightarrow> string \<Rightarrow> CollectionUpdates \<Rightarrow> Store \<Rightarrow> (Error + unit) \<times> Store" where
  "editCollection updated collectionId updates s0 =
     (let s = begin_call (UpdateCollection collectionId updates) s0 in
      case updated of
        Inl e \<Rightarrow> fail e s
      | Inr _ \<Rightarrow>
          (Inr (),
           s\<lparr> collections_store := map (edit_col collectionId updates) (collections_store s),
              selectedCollection :=
                (case selectedCollection s of
                   None \<Rightarrow> None
                 | Some sel \<Rightarrow>
                     if has_id_col collectionId sel then Some (spread_col sel updates) else Some sel),
              isLoading := False \<rparr>))"

definition removeCollection :: "Error + unit \<Rightarrow> string \<Rightarrow> Store \<Rightarrow> (Error + unit) \<times> Store" where
  "removeCollection deleted collectionId s0 =
     (let s = begin_call (DeleteCollection collectionId) s0 in
      case deleted of
        Inl e \<Rightarrow> fail e s
      | Inr _ \<Rightarrow>
          (Inr (),
           s\<lparr> collections_store := filter (\<lambda>item. \<not> has_id_col collectionId item) (collections_store s),
              selectedCollection :=
                (case selectedCollection s of
                   None \<Rightarrow> None
                 | Some sel \<Rightarrow> if has_id_col collectionId sel then None else Some sel),
              isLoading := False \<rparr>))"

text \<open>\<open>toggleFavorite\<close> and \<open>toggleContentPublic\<close>: \<open>!x\<close> is true unless \<open>x\<close> is \<open>true\<close>.\<close>

definition toggleFavorite :: "Error + unit \<Rightarrow> string \<Rightarrow> Store \<Rightarrow> (Error + unit) \<times> Store" where
  "toggleFavorite updated contentId s =
     (case find (has_id contentId) (allContent s) of
        None \<Rightarrow> (Inr (), s)
      | Some c \<Rightarrow>
          editContent updated contentId (no_fields\<lparr> isFavorite := Some (isFavorite c \<noteq> Some True) \<rparr>) s)"

definition toggleContentPublic :: "Error + unit \<Rightarrow> string \<Rightarrow> Store \<Rightarrow> (Error + unit) \<times> Store" where
  "toggleContentPublic updated contentId s =
     (case find (has_id contentId) (allContent s) of
        None \<Rightarrow> (Inr (), s)
      | Some c \<Rightarrow>
          editContent updated contentId (no_fields\<lparr> isPublic := Some (isPublic c \<noteq> Some True) \<rparr>) s)"

text \<open>
  The \<open>catch\<close> block of \<open>addToCollection\<close> and \<open>removeFromCollection\<close>:
  \<open>set({ error }); throw error\<close>.
\<close>

definition rethrow :: "Error \<Rightarrow> Store \<Rightarrow> (Error + 'a) \<times> Store" where
  "rethrow e s = (Inl e, s\<lparr> error := Some e \<rparr>)"

text \<open>
  \<open>updatedCollections.push(collectionId)\<close> in \<open>addToCollection\<close> writes into the array of
  the item itself when the item has one (\<open>content.collections || []\<close> is that very array).
  The same array can be reachable from other places of the state: the entry of the item in
  its bucket, the selection, copies made by a spread. Which places share it is not visible
  in the values, so it is an argument of the model: a predicate on the places of the state.
  A place that shares the array holds the same elements.
\<close>

datatype Slot = InAllContent nat | InBucket string nat | InSelected

definition pushed_at ::
  "bool \<Rightarrow> string list option \<Rightarrow> string list \<Rightarrow> Content \<Rightarrow> Content" where
  "pushed_at shared before after item =
     (if shared \<and> collections item = before then item\<lparr> collections := Some after \<rparr> else item)"

definition array_push ::
  "(Slot \<Rightarrow> bool) \<Rightarrow> string list option \<Rightarrow> string list \<Rightarrow> Store \<Rightarrow> Store" where
  "array_push shared before after s =
     s\<lparr> allContent :=
          map (\<lambda>(i, item). pushed_at (shared (InAllContent i)) before after item)
            (enumerate 0 (allContent s)),
        contentByType :=
          (\<lambda>k. map_option
             (\<lambda>bucket. map (\<lambda>(i, item). pushed_at (shared (InBucket k i)) before after item)
                (enumerate 0 bucket))
             (contentByType s k)),
        selectedContent := map_option (pushed_at (shared InSelected) before after) (selectedContent s) \<rparr>"

text \<open>The position of the element that \<open>find\<close> returns.\<close>

definition first_index :: "('a \<Rightarrow> bool) \<Rightarrow> 'a list \<Rightarrow> nat" where
  "first_index P xs = length (takeWhile (\<lambda>x. \<not> P x) xs)"

text \<open>
  \<open>addToCollection\<close>: \<open>collections\<close> is read once, before the two awaited calls; the count
  written is the one read then.
\<close>

definition addToCollection ::
  "(Slot \<Rightarrow> bool) \<Rightarrow> Error + unit \<Rightarrow> Error + unit \<Rightarrow> string \<Rightarrow> string \<Rightarrow> Store
     \<Rightarrow> (Error + unit) \<times> Store" where
  "addToCollection shared updatedContent updatedCollection contentId collectionId s =
     (case find (has_id contentId) (allContent s) of
        None \<Rightarrow> rethrow (Error (''Content with ID '' @ contentId @ '' not found'')) s
      | Some c \<Rightarrow>
          (let updatedCollections = or_list (collections c) in
           case
             (if collectionId \<in> set updatedCollections then (Inr (), s)
              else
                editContent updatedContent contentId
                  (no_fields\<lparr> collections := Some (updatedCollections @ [collectionId]) \<rparr>)
                  (case collections c of
                     None \<Rightarrow> s
                   | Some _ \<Rightarrow>
                       array_push
                         (shared(InAllContent (first_index (has_id contentId) (allContent s)) := True))
                         (collections c) (updatedCollections @ [collectionId]) s))
           of
             (Inl e, s1) \<Rightarrow> rethrow e s1
           | (Inr _, s1) \<Rightarrow>
               (case find (has_id_col collectionId) (collections_store s) of
                  None \<Rightarrow> (Inr (), s1)
                | Some col \<Rightarrow>
                    (case editCollection updatedCollection collectionId
                            (no_updates\<lparr> contentCount_upd := Some (js_add (contentCount col) (Finite 1)) \<rparr>)
                            s1 of
                       (Inl e, s2) \<Rightarrow> rethrow e s2
                     | (Inr _, s2) \<Rightarrow> (Inr (), s2)))))"

text \<open>
  \<open>removeFromCollection\<close>: \<open>filter\<close> builds a new array, and \<open>editContent\<close> is called in every
  case.
\<close>

definition removeFromCollection ::
  "Error + unit \<Rightarrow> Error + unit \<Rightarrow> string \<Rightarrow> string \<Rightarrow> Store \<Rightarrow> (Error + unit) \<times> Store" where
  "removeFromCollection updatedContent updatedCollection contentId collectionId s =
     (case find (has_id contentId) (allContent s) of
        None \<Rightarrow> rethrow (Error (''Content with ID '' @ contentId @ '' not found'')) s
      | Some c \<Rightarrow>
          (let updatedCollections =
                 (case collections c of None \<Rightarrow> [] | Some l \<Rightarrow> filter (\<lambda>i. i \<noteq> collectionId) l) in
           case editContent updatedContent contentId
                  (no_fields\<lparr> collections := Some updatedCollections \<rparr>) s of
             (Inl e, s1) \<Rightarrow> rethrow e s1
           | (Inr _, s1) \<Rightarrow>
               (case find (has_id_col collectionId) (collections_store s) of
                  None \<Rightarrow> (Inr (), s1)
                | Some col \<Rightarrow>
                    if js_gt (contentCount col) (Finite 0) then
                      (case editCollection updatedCollection collectionId
                              (no_updates\<lparr> contentCount_upd := Some (js_sub (contentCount col) (Finite 1)) \<rparr>)
                              s1 of
                         (Inl e, s2) \<Rightarrow> rethrow e s2
                       | (Inr _, s2) \<Rightarrow> (Inr (), s2))
                    else (Inr (), s1))))"

section \<open>The gateway's mapping (content-service.ts)\<close>

text \<open>
  \<open>t?.toMillis() || Date.now()\<close>: a missing time and the time zero both give the clock; the
  sentinel of \<open>serverTimestamp()\<close> is an object without \<open>toMillis\<close>, and calling it raises. The
  clock is an argument.
\<close>

definition millis_or_now :: "int \<Rightarrow> FieldValue option \<Rightarrow> Error + int" where
  "millis_or_now now t =
     (case t of
        None \<Rightarrow> Inr now
      | Some (Timestamp ms) \<Rightarrow> Inr (if ms = 0 then now else ms)
      | Some ServerTimestamp \<Rightarrow> Inl (TypeError ''toMillis is not a function''))"

definition unknown_type :: "string option \<Rightarrow> Error" where
  "unknown_type t = Error (''Unknown content type: '' @ key_of t)"

text \<open>The object \<open>baseContent\<close> of \<open>convertToContent\<close>.\<close>

definition baseContent :: "int \<Rightarrow> int \<Rightarrow> DocumentData \<Rightarrow> Content" where
  "baseContent created updated docData =
     no_fields\<lparr>
       id_c := id_c docData,
       userId := userId docData,
       title := title docData,
       description := Some (or_string (description docData)),
       tags := Some (or_list (tags docData)),
       createdAt := Some created,
       updatedAt := Some updated,
       type := type docData,
       isFavorite := Some (or_false (isFavorite docData)),
       isPublic := Some (or_false (isPublic docData)),
       collections := Some (or_list (collections docData)) \<rparr>"

text \<open>
  \<open>convertToContent\<close>, with the two readings of the clock as arguments. \<open>baseContent\<close> is
  built before the \<open>switch\<close>, so a time that cannot be read raises first.
\<close>

definition convertToContent :: "int \<Rightarrow> int \<Rightarrow> DocumentData \<Rightarrow> Error + Content" where
  "convertToContent now1 now2 docData =
     (case millis_or_now now1 (createdAt docData) of
        Inl e \<Rightarrow> Inl e
      | Inr created \<Rightarrow>
     (case millis_or_now now2 (updatedAt docData) of
        Inl e \<Rightarrow> Inl e
      | Inr updated \<Rightarrow>
     (let base = baseContent created updated docData in
      if type docData = Some PHOTO then
        Inr (base\<lparr> type := Some PHOTO,
               storageRef := storageRef docData,
               thumbnailRef := thumbnailRef docData,
               dimensions := dimensions docData,
               location := location docData,
               camera := camera docData \<rparr>)
      else if type docData = Some DOCUMENT then
        Inr (base\<lparr> type := Some DOCUMENT,
               storageRef := storageRef docData,
               fileType := fileType docData,
               fileSize := fileSize docData,
               previewRef := previewRef docData \<rparr>)
      else if type docData = Some CODE then
        Inr (base\<lparr> type := Some CODE,
               language := language docData,
               code := code docData,
               runnable := runnable docData \<rparr>)
      else if type docData = Some NOTE then
        Inr (base\<lparr> type := Some NOTE,
               content := content docData,
               color := color docData \<rparr>)
      else if type docData = Some ART then
        Inr (base\<lparr> type := Some ART,
               storageRef := storageRef docData,
               medium := medium docData,
               dimensions := dimensions docData \<rparr>)
      else if type docData = Some LINK then
        Inr (base\<lparr> type := Some LINK,
               url := url docData,
               favicon := favicon docData,
               ogImage := ogImage docData,
               siteName := siteName docData \<rparr>)
      else Inl (unknown_type (type docData)))))"

text \<open>
  The object \<open>baseData\<close> of \<open>convertFromContent\<close>: no \<open>id\<close>, the sentinel as \<open>updatedAt\<close>, and
  the sentinel as \<open>createdAt\<close> when \<open>!content.id\<close> (no id, or the empty string).
\<close>

definition baseData :: "Content \<Rightarrow> DocumentData" where
  "baseData item =
     no_fields\<lparr>
       userId := userId item,
       title := title item,
       description := Some (or_string (description item)),
       tags := Some (or_list (tags item)),
       type := type item,
       isFavorite := Some (or_false (isFavorite item)),
       isPublic := Some (or_false (isPublic item)),
       collections := Some (or_list (collections item)),
       updatedAt := Some ServerTimestamp,
       createdAt := (if id_c item = None \<or> id_c item = Some [] then Some ServerTimestamp else None) \<rparr>"

definition convertFromContent :: "Content \<Rightarrow> Error + DocumentData" where
  "convertFromContent item =
     (let base = baseData item in
      if type item = Some PHOTO then
        Inr (base\<lparr> storageRef := storageRef item,
               thumbnailRef := thumbnailRef item,
               dimensions := dimensions item,
               location := location item,
               camera := camera item \<rparr>)
      else if type item = Some DOCUMENT then
        Inr (base\<lparr> storageRef := storageRef item,
               fileType := fileType item,
               fileSize := fileSize item,
               previewRef := previewRef item \<rparr>)
      else if type item = Some CODE then
        Inr (base\<lparr> language := language item,
               code := code item,
               runnable := runnable item \<rparr>)
      else if type item = Some NOTE then
        Inr (base\<lparr> content := content item,
               color := color item \<rparr>)
      else if type item = Some ART then
        Inr (base\<lparr> storageRef := storageRef item,
               medium := medium item,
               dimensions := dimensions item \<rparr>)
      else if type item = Some LINK then
        Inr (base\<lparr> url := url item,
               favicon := favicon item,
               ogImage := ogImage item,
               siteName := siteName item \<rparr>)
      else Inl (unknown_type (type item)))"

text \<open>
  The listener that \<open>subscribeToUserContent\<close> hands to \<open>onSnapshot\<close>:
  \<open>snapshot.docs.map(docSnap => ({ ...convertToContent(docSnap.data()), id: docSnap.id }))\<close>
  and then \<open>callback(content)\<close>. A document is given by its id and its data, together with
  the two readings of the clock that its conversion makes. The first conversion that raises
  ends the \<open>map\<close>, and the callback is not called.
\<close>

type_synonym QueryDocumentSnapshot = "(int \<times> int) \<times> string \<times> DocumentData"

definition doc_to_content :: "QueryDocumentSnapshot \<Rightarrow> Error + Content" where
  "doc_to_content docSnap =
     (case docSnap of
        ((now1, now2), docId, docData) \<Rightarrow>
          (case convertToContent now1 now2 docData of
             Inl e \<Rightarrow> Inl e
           | Inr c \<Rightarrow> Inr (c\<lparr> id_c := Some docId \<rparr>)))"

primrec map_docs :: "QueryDocumentSnapshot list \<Rightarrow> Error + Content list" where
  "map_docs [] = Inr []"
| "map_docs (docSnap # rest) =
     (case doc_to_content docSnap of
        Inl e \<Rightarrow> Inl e
      | Inr c \<Rightarrow> (case map_docs rest of Inl e \<Rightarrow> Inl e | Inr cs \<Rightarrow> Inr (c # cs)))"

definition onSnapshot_content ::
  "QueryDocumentSnapshot list \<Rightarrow> Store \<Rightarrow> (Error + unit) \<times> Store" where
  "onSnapshot_content docs s =
     (case map_docs docs of
        Inl e \<Rightarrow> (Inl e, s)
      | Inr items \<Rightarrow> content_callback items s)"

section \<open>What the round trip is measured against\<close>

text \<open>
  The spec's normalisation: an absent \<open>description\<close>, \<open>tags\<close>, \<open>isFavorite\<close>, \<open>isPublic\<close> or
  \<open>collections\<close> stands for the empty string, the empty list or \<open>false\<close>.
\<close>

definition with_defaults :: "'t Fields \<Rightarrow> 't Fields" where
  "with_defaults f =
     f\<lparr> description := Some (case description f of None \<Rightarrow> [] | Some d \<Rightarrow> d),
        tags := Some (case tags f of None \<Rightarrow> [] | Some ts \<Rightarrow> ts),
        isFavorite := Some (case isFavorite f of None \<Rightarrow> False | Some b \<Rightarrow> b),
        isPublic := Some (case isPublic f of None \<Rightarrow> False | Some b \<Rightarrow> b),
        collections := Some (case collections f of None \<Rightarrow> [] | Some cs \<Rightarrow> cs) \<rparr>"

text \<open>
  The fields that the interfaces of content-types.ts declare: those of \<open>BaseContent\<close>, and
  those of the variant that the field \<open>type\<close> names. \<open>declared_fields\<close> keeps them and drops
  the others.
\<close>

definition base_fields :: "'t Fields \<Rightarrow> 't Fields" where
  "base_fields f =
     no_fields\<lparr> id_c := id_c f, userId := userId f, title := title f,
       description := description f, tags := tags f, createdAt := createdAt f,
       updatedAt := updatedAt f, type := type f, isFavorite := isFavorite f,
       isPublic := isPublic f, collections := collections f \<rparr>"

definition declared_fields :: "'t Fields \<Rightarrow> 't Fields" where
  "declared_fields f =
     (if type f = Some PHOTO then
        (base_fields f)\<lparr> storageRef := storageRef f, thumbnailRef := thumbnailRef f,
          dimensions := dimensions f, location := location f, camera := camera f \<rparr>
      else if type f = Some DOCUMENT then
        (base_fields f)\<lparr> storageRef := storageRef f, fileType := fileType f,
          fileSize := fileSize f, previewRef := previewRef f \<rparr>
      else if type f = Some CODE then
        (base_fields f)\<lparr> language := language f, code := code f, runnable := runnable f \<rparr>
      else if type f = Some NOTE then
        (base_fields f)\<lparr> content := content f, color := color f \<rparr>
      else if type f = Some ART then
        (base_fields f)\<lparr> storageRef := storageRef f, medium := medium f,
          dimensions := dimensions f \<rparr>
      else if type f = Some LINK then
        (base_fields f)\<lparr> url := url f, favicon := favicon f, ogImage := ogImage f,
          siteName := siteName f \<rparr>
      else base_fields f)"

section \<open>Concrete inputs\<close>

definition ex_note :: Content where
  "ex_note = no_fields\<lparr> id_c := Some ''n1'', userId := Some ''u1'', title := Some ''T'',
     type := Some NOTE, content := Some ''hi'', collections := Some [''k1''] \<rparr>"

definition ex_photo :: Content where
  "ex_photo = no_fields\<lparr> id_c := Some ''p1'', userId := Some ''u1'', title := Some ''P'',
     type := Some PHOTO, storageRef := Some ''a.png'' \<rparr>"

definition ex_video :: Content where
  "ex_video = no_fields\<lparr> id_c := Some ''v1'', userId := Some ''u1'', title := Some ''V'',
     type := Some ''video'' \<rparr>"

definition ex_twice :: Content where
  "ex_twice = no_fields\<lparr> id_c := Some ''d1'', userId := Some ''u1'', title := Some ''D'',
     type := Some NOTE, content := Some ''hi'', collections := Some [''k1'', ''k1''] \<rparr>"

definition ex_collection :: ContentCollection where
  "ex_collection = \<lparr> id_col = ''k1'', userId_col = ''u1'', name = ''Trips'',
     description_col = None, coverImage = None, createdAt_col = 1000, updatedAt_col = 1000,
     contentCount = Finite 1, isPublic_col = False, color_col = None \<rparr>"

definition ex_store :: Store where
  "ex_store = \<lparr> allContent = [ex_note, ex_photo],
     contentByType = emptyByType(NOTE \<mapsto> [ex_note], PHOTO \<mapsto> [ex_photo]),
     collections_store = [ex_collection], selectedContent = Some ex_note,
     selectedCollection = None, isLoading = False, error = None, gatewayCalls = [] \<rparr>"

definition ex_store_twice :: Store where
  "ex_store_twice = \<lparr> allContent = [ex_twice],
     contentByType = emptyByType(NOTE \<mapsto> [ex_twice]),
     collections_store = [ex_collection], selectedContent = None,
     selectedCollection = None, isLoading = False, error = None, gatewayCalls = [] \<rparr>"

definition ex_unshared :: "Slot \<Rightarrow> bool" where
  "ex_unshared slot = False"

definition ex_record :: DocumentData where
  "ex_record = no_fields\<lparr> userId := Some ''u1'', title := Some ''T'',
     description := Some ''d'', tags := Some [''x''], createdAt := Some (Timestamp 1000),
     updatedAt := Some (Timestamp 2000), type := Some NOTE, isFavorite := Some True,
     isPublic := Some False, collections := Some [''k1''], content := Some ''hi'' \<rparr>"

definition ex_decoded :: Content where
  "ex_decoded = no_fields\<lparr> userId := Some ''u1'', title := Some ''T'',
     description := Some ''d'', tags := Some [''x''], createdAt := Some 1000,
     updatedAt := Some 2000, type := Some NOTE, isFavorite := Some True,
     isPublic := Some False, collections := Some [''k1''], content := Some ''hi'' \<rparr>"

definition ex_inherited :: Content where
  "ex_inherited = no_fields\<lparr> id_c := Some ''c1'', userId := Some ''u1'', title := Some ''C'',
     type := Some ''constructor'' \<rparr>"

definition ex_first :: Content where
  "ex_first = no_fields\<lparr> id_c := Some ''x1'', userId := Some ''u1'', title := Some ''X'',
     type := Some NOTE, content := Some ''hi'', collections := Some [] \<rparr>"

definition ex_second :: Content where
  "ex_second = no_fields\<lparr> id_c := Some ''x1'', userId := Some ''u1'', title := Some ''X'',
     type := Some NOTE, content := Some ''hi'', collections := Some [''k1''] \<rparr>"

definition ex_store_shadow :: Store where
  "ex_store_shadow = \<lparr> allContent = [ex_first, ex_second],
     contentByType = emptyByType(NOTE \<mapsto> [ex_first, ex_second]),
     collections_store = [ex_collection], selectedContent = None,
     selectedCollection = None, isLoading = False, error = None, gatewayCalls = [] \<rparr>"

definition ex_half :: ContentCollection where
  "ex_half = \<lparr> id_col = ''k1'', userId_col = ''u1'', name = ''Trips'',
     description_col = None, coverImage = None, createdAt_col = 1000, updatedAt_col = 1000,
     contentCount = Finite (1 / 2), isPublic_col = False, color_col = None \<rparr>"

definition ex_store_half :: Store where
  "ex_store_half = \<lparr> allContent = [ex_note, ex_photo],
     contentByType = emptyByType(NOTE \<mapsto> [ex_note], PHOTO \<mapsto> [ex_photo]),
     collections_store = [ex_half], selectedContent = None,
     selectedCollection = None, isLoading = False, error = None, gatewayCalls = [] \<rparr>"

definition ex_docs :: "QueryDocumentSnapshot list" where
  "ex_docs = [((5, 6), ''n9'', ex_record)]"

section \<open>Auxiliary facts\<close>

lemmas kind_defs = ContentType_def PHOTO_def DOCUMENT_def CODE_def NOTE_def ART_def LINK_def

lemmas ex_defs = ex_note_def ex_photo_def ex_video_def ex_twice_def ex_collection_def
  ex_store_def ex_store_twice_def ex_unshared_def ex_record_def ex_decoded_def
  ex_inherited_def ex_first_def ex_second_def ex_store_shadow_def ex_half_def
  ex_store_half_def ex_docs_def

lemma find_map_same:
  "(\<And>x. P (f x) = P x) \<Longrightarrow> find P (map f xs) = map_option f (find P xs)"
  by (induction xs) auto

lemma find_has_id_None: "(find (has_id cid) xs = None) = (Some cid \<notin> set (map id_c xs))"
  by (force simp: find_None_iff has_id_def image_iff)

lemma absent_find_None:
  "\<forall>item \<in> set xs. id_c item \<noteq> Some cid \<Longrightarrow> find (has_id cid) xs = None"
  by (simp add: find_None_iff has_id_def)

lemma absent_find_col_None:
  "\<forall>col \<in> set xs. id_col col \<noteq> cid \<Longrightarrow> find (has_id_col cid) xs = None"
  by (simp add: find_None_iff has_id_col_def)

subsection \<open>Rounding to a double\<close>

lemma pow2_pos: "0 < pow2 e"
  by (simp add: pow2_def)

lemma round_half_even_nonneg: "0 \<le> q \<Longrightarrow> 0 \<le> round_half_even q"
  by (auto simp: round_half_even_def Let_def)

lemma round_half_even_of_int: "round_half_even (of_int k) = k"
  by (simp add: round_half_even_def)

text \<open>The double nearest to a rational that is not negative is not negative.\<close>

lemma round_double_nonneg:
  assumes "0 \<le> x"
  shows "js_ge (round_double x) (Finite 0)"
proof (cases "x = 0")
  case True
  then show ?thesis by (simp add: round_double_def js_ge_def)
next
  case False
  with assms have pos: "0 < x" by simp
  define u where "u = pow2 (max (exponent \<bar>x\<bar>) (- 1022) - 52)"
  have u: "0 < u" by (simp add: u_def pow2_pos)
  have "0 \<le> \<bar>x\<bar> / u" using u by simp
  then have "0 \<le> round_half_even (\<bar>x\<bar> / u)" by (rule round_half_even_nonneg)
  then have "0 \<le> rat_of_int (round_half_even (\<bar>x\<bar> / u)) * u"
    using u by simp
  then show ?thesis
    using pos False by (simp add: round_double_def Let_def js_ge_def u_def)
qed

lemma exponent_of_int:
  assumes "0 < k"
  shows "exponent (of_int k) = bitlen k - 1" and "0 \<le> bitlen k - 1"
    and "(2::int) ^ nat (bitlen k - 1) \<le> k"
proof -
  have b: "(2::int) ^ nat (bitlen k - 1) \<le> k"
    using bitlen_bounds [OF assms] by simp
  have one: "bitlen 1 = 1" by (simp add: bitlen_alt_def)
  have ge: "1 \<le> bitlen k" using assms by (simp add: bitlen_alt_def)
  have "rat_of_int (2 ^ nat (bitlen k - 1)) \<le> rat_of_int k"
    using b by (simp only: of_int_le_iff)
  then have "pow2 (bitlen k - 1) \<le> of_int k"
    using ge by (simp add: pow2_def)
  then show "exponent (of_int k) = bitlen k - 1"
    by (simp add: exponent_def one)
  show "0 \<le> bitlen k - 1" using ge by simp
  show "(2::int) ^ nat (bitlen k - 1) \<le> k" by (rule b)
qed

lemma round_double_abs_int:
  assumes "0 < k" and "k \<le> 2 ^ 53"
  shows "rat_of_int (round_half_even (of_int k / pow2 (max (exponent (of_int k)) (- 1022) - 52))) *
           pow2 (max (exponent (of_int k)) (- 1022) - 52) = of_int k"
proof -
  let ?d = "bitlen k - 1"
  have e: "exponent (of_int k) = ?d" and d0: "0 \<le> ?d" and low: "(2::int) ^ nat ?d \<le> k"
    using exponent_of_int [OF assms(1)] by blast+
  have "(2::int) ^ nat ?d \<le> 2 ^ 53" using low assms(2) by simp
  then have "nat ?d \<le> 53" by (rule power_le_imp_le_exp [rotated]) simp
  then have d53: "?d \<le> 53" by simp
  have m: "max (exponent (of_int k)) (- 1022) = ?d" using e d0 by simp
  show ?thesis
  proof (cases "?d \<le> 52")
    case True
    define j where "j = nat (52 - ?d)"
    have u: "pow2 (?d - 52) = 1 / 2 ^ j"
      using True by (auto simp: pow2_def j_def)
    have "rat_of_int k / (1 / 2 ^ j) = of_int (k * 2 ^ j)" by simp
    then have "round_half_even (rat_of_int k / (1 / 2 ^ j)) = k * 2 ^ j"
      by (simp only: round_half_even_of_int)
    then show ?thesis
      unfolding m u by simp
  next
    case False
    then have d: "?d = 53" using d53 by simp
    then have "(2::int) ^ 53 \<le> k" using low by simp
    then have k: "k = 2 ^ 53" using assms(2) by simp
    have u: "pow2 (?d - 52) = 2" by (simp add: d pow2_def)
    have "rat_of_int k / 2 = of_int (2 ^ 52)" by (simp add: k)
    then have "round_half_even (rat_of_int k / 2) = 2 ^ 52"
      by (simp only: round_half_even_of_int)
    then show ?thesis
      unfolding m u by (simp add: k)
  qed
qed

text \<open>An integer of magnitude up to \<open>2^53\<close> is a double.\<close>

lemma round_double_of_int:
  assumes "\<bar>n\<bar> \<le> 2 ^ 53"
  shows "round_double (of_int n) = Finite (of_int n)"
proof (cases "n = 0")
  case True
  then show ?thesis by (simp add: round_double_def)
next
  case False
  define k where "k = \<bar>n\<bar>"
  have pos: "0 < k" and le: "k \<le> 2 ^ 53"
    using False assms by (simp_all add: k_def)
  have absx: "\<bar>rat_of_int n\<bar> = rat_of_int k" by (simp add: k_def)
  let ?u = "pow2 (max (exponent (rat_of_int k)) (- 1022) - 52)"
  have r: "rat_of_int (round_half_even (rat_of_int k / ?u)) * ?u = rat_of_int k"
    by (rule round_double_abs_int [OF pos le])
  have "rat_of_int k \<le> rat_of_int (2 ^ 53)"
    using le by (simp only: of_int_le_iff)
  also have "\<dots> < pow2 1024" by (simp add: pow2_def)
  finally have small: "\<not> pow2 1024 \<le> rat_of_int k" by simp
  have nz: "rat_of_int n \<noteq> 0" using False by simp
  have sign: "(if 0 < rat_of_int n then rat_of_int k else - rat_of_int k) = rat_of_int n"
    by (simp add: k_def)
  show ?thesis
    unfolding round_double_def Let_def absx r
    using nz small sign by simp
qed

lemma round_double_examples:
  "round_double 0 = Finite 0"
  "round_double 1 = Finite 1"
  "round_double 2 = Finite 2"
  "round_double 3 = Finite 3"
  using round_double_of_int [of 0] round_double_of_int [of 1] round_double_of_int [of 2]
    round_double_of_int [of 3]
  by simp_all

lemma exponent_half: "exponent (1 / 2) = - 1"
  by code_simp

lemma round_double_minus_half: "round_double (- (1 / 2)) = Finite (- (1 / 2))"
proof -
  have u: "pow2 (max (- 1) (- 1022) - 52) = 1 / 2 ^ 53"
    by (simp add: pow2_def)
  have "(1 / 2 :: rat) / (1 / 2 ^ 53) = rat_of_int (2 ^ 52)" by simp
  then have m: "round_half_even ((1 / 2) / (1 / 2 ^ 53)) = 2 ^ 52"
    by (simp only: round_half_even_of_int)
  have a: "\<bar>- (1 / 2 :: rat)\<bar> = 1 / 2" by simp
  have small: "\<not> pow2 1024 \<le> (1 / 2 :: rat)"
    by (simp add: pow2_def)
  show ?thesis
    unfolding round_double_def Let_def a exponent_half u m
    using small by simp
qed

lemma safe_integer_add_1:
  assumes "isSafeInteger x"
  shows "\<exists>r. x = Finite r \<and> js_add x (Finite 1) = Finite (r + 1)"
proof -
  from assms obtain r where x: "x = Finite r" and i: "r = of_int \<lfloor>r\<rfloor>"
    and b: "\<bar>r\<bar> \<le> 2 ^ 53 - 1"
    by (auto simp: isSafeInteger_def split: Number.splits)
  define n where "n = \<lfloor>r\<rfloor>"
  have r: "r = rat_of_int n" using i by (simp add: n_def)
  have "rat_of_int \<bar>n\<bar> \<le> rat_of_int (2 ^ 53 - 1)" using b by (simp add: r)
  then have "\<bar>n\<bar> \<le> 2 ^ 53 - 1" by (simp only: of_int_le_iff)
  then have "\<bar>n + 1\<bar> \<le> 2 ^ 53" by simp
  then have "round_double (rat_of_int (n + 1)) = Finite (rat_of_int (n + 1))"
    by (rule round_double_of_int)
  then have "round_double (r + 1) = Finite (r + 1)" by (simp add: r)
  then show ?thesis by (simp add: x js_add_def)
qed

lemma positive_integer_sub_1:
  assumes "isInteger x" and "js_gt x (Finite 0)"
  shows "js_ge (js_sub x (Finite 1)) (Finite 0)"
proof -
  from assms(1) obtain r where x: "x = Finite r" and i: "r = of_int \<lfloor>r\<rfloor>"
    by (auto simp: isInteger_def split: Number.splits)
  have "0 < r" using assms(2) by (simp add: x js_gt_def)
  then have "0 < rat_of_int \<lfloor>r\<rfloor>" using i by simp
  then have "1 \<le> \<lfloor>r\<rfloor>" by simp
  then have "rat_of_int 1 \<le> rat_of_int \<lfloor>r\<rfloor>" by (simp only: of_int_le_iff)
  then have "0 \<le> r - 1" using i by simp
  then have "js_ge (round_double (r - 1)) (Finite 0)" by (rule round_double_nonneg)
  then show ?thesis by (simp add: x js_sub_def)
qed

section \<open>A subscription push replaces the content\<close>

subsection \<open>The loop over the pushed items\<close>

lemma kind_not_inherited: "t \<in> set ContentType \<Longrightarrow> t \<notin> set Object_prototype"
  by (auto simp: kind_defs Object_prototype_def)

lemma key_of_kind: "t \<in> set ContentType \<Longrightarrow> key_of ty = t \<longleftrightarrow> ty = Some t"
  by (auto simp: key_of_def kind_defs split: option.splits)

lemma emptyByType_apply:
  "emptyByType t = (if t \<in> set ContentType then Some [] else None)"
  by (simp add: emptyByType_def kind_defs)

lemma push_item_apply:
  assumes "key_of (type x) \<notin> set Object_prototype"
  shows "\<exists>m'. push_item x m = Inr m' \<and>
     (\<forall>t. m' t = (case m t of None \<Rightarrow> None
        | Some b \<Rightarrow> Some (if key_of (type x) = t then b @ [x] else b)))"
  using assms
  by (auto simp: push_item_def get_property_def split: option.splits)

lemma forEach_push_apply:
  assumes "\<forall>item \<in> set xs. key_of (type item) \<notin> set Object_prototype"
  shows "\<exists>m'. forEach_push xs m = Inr m' \<and>
     (\<forall>t. m' t = (case m t of None \<Rightarrow> None
        | Some b \<Rightarrow> Some (b @ filter (\<lambda>item. key_of (type item) = t) xs)))"
  using assms
proof (induction xs arbitrary: m)
  case Nil
  then show ?case by (simp split: option.splits)
next
  case (Cons x xs)
  from Cons.prems have "key_of (type x) \<notin> set Object_prototype" by simp
  then obtain m1 where m1: "push_item x m = Inr m1"
    and a1: "\<forall>t. m1 t = (case m t of None \<Rightarrow> None
        | Some b \<Rightarrow> Some (if key_of (type x) = t then b @ [x] else b))"
    using push_item_apply by blast
  from Cons.prems have "\<forall>item \<in> set xs. key_of (type item) \<notin> set Object_prototype" by simp
  then obtain m2 where m2: "forEach_push xs m1 = Inr m2"
    and a2: "\<forall>t. m2 t = (case m1 t of None \<Rightarrow> None
        | Some b \<Rightarrow> Some (b @ filter (\<lambda>item. key_of (type item) = t) xs))"
    using Cons.IH by blast
  have "forEach_push (x # xs) m = Inr m2" by (simp add: m1 m2)
  moreover have "\<forall>t. m2 t = (case m t of None \<Rightarrow> None
        | Some b \<Rightarrow> Some (b @ filter (\<lambda>item. key_of (type item) = t) (x # xs)))"
    by (simp add: a1 a2 split: option.splits)
  ultimately show ?case by blast
qed

lemma groupByType_apply:
  assumes "\<forall>item \<in> set xs. key_of (type item) \<notin> set Object_prototype"
  shows "\<exists>m. groupByType xs = Inr m \<and>
     (\<forall>t. m t = (if t \<in> set ContentType
        then Some (filter (\<lambda>item. type item = Some t) xs) else None))"
proof -
  obtain m where m: "forEach_push xs emptyByType = Inr m"
    and a: "\<forall>t. m t = (case emptyByType t of None \<Rightarrow> None
        | Some b \<Rightarrow> Some (b @ filter (\<lambda>item. key_of (type item) = t) xs))"
    using forEach_push_apply [OF assms] by blast
  have "\<forall>t. m t = (if t \<in> set ContentType
        then Some (filter (\<lambda>item. type item = Some t) xs) else None)"
    by (simp add: a emptyByType_apply key_of_kind cong: filter_cong)
  then show ?thesis using m by (simp add: groupByType_def)
qed

lemma content_callback_apply:
  assumes "\<forall>item \<in> set xs. key_of (type item) \<notin> set Object_prototype"
  shows "fst (content_callback xs s) = Inr ()"
    and "allContent (snd (content_callback xs s)) = xs"
    and "contentByType (snd (content_callback xs s)) t =
      (if t \<in> set ContentType then Some (filter (\<lambda>item. type item = Some t) xs) else None)"
proof -
  obtain m where m: "groupByType xs = Inr m"
    and a: "\<forall>t. m t = (if t \<in> set ContentType
        then Some (filter (\<lambda>item. type item = Some t) xs) else None)"
    using groupByType_apply [OF assms] by blast
  show "fst (content_callback xs s) = Inr ()"
    and "allContent (snd (content_callback xs s)) = xs"
    by (simp_all add: content_callback_def m)
  show "contentByType (snd (content_callback xs s)) t =
      (if t \<in> set ContentType then Some (filter (\<lambda>item. type item = Some t) xs) else None)"
    using a by (simp add: content_callback_def m)
qed

subsection \<open>What the gateway pushes\<close>

lemma convertToContent_kind:
  assumes "convertToContent now1 now2 d = Inr c"
  shows "type c \<in> Some ` set ContentType"
proof -
  obtain t1 t2 where "millis_or_now now1 (createdAt d) = Inr t1"
    and "millis_or_now now2 (updatedAt d) = Inr t2"
    using assms by (auto simp: convertToContent_def split: sum.splits)
  then show ?thesis
    using assms
    by (auto simp: convertToContent_def Let_def ContentType_def split: if_splits)
qed

lemma doc_to_content_kind:
  assumes "doc_to_content docSnap = Inr c"
  shows "key_of (type c) \<notin> set Object_prototype"
proof -
  obtain now1 now2 docId docData where d: "docSnap = ((now1, now2), docId, docData)"
    by (cases docSnap) auto
  then obtain c0 where c0: "convertToContent now1 now2 docData = Inr c0"
    and c: "c = c0\<lparr> id_c := Some docId \<rparr>"
    using assms by (auto simp: doc_to_content_def split: sum.splits)
  have "type c0 \<in> Some ` set ContentType" using c0 by (rule convertToContent_kind)
  then obtain t where "type c = Some t" and "t \<in> set ContentType"
    using c by auto
  then show ?thesis by (simp add: key_of_def kind_not_inherited)
qed

lemma map_docs_kind:
  "map_docs docs = Inr items \<Longrightarrow>
   \<forall>item \<in> set items. key_of (type item) \<notin> set Object_prototype"
proof (induction docs arbitrary: items)
  case Nil
  then show ?case by simp
next
  case (Cons docSnap rest)
  then show ?case
    by (auto simp: doc_to_content_kind split: sum.splits)
qed

text \<open>
  C2. A push of the content subscription carries the items that the gateway's listener
  converts from the documents; their kinds are among the six. In every state of the store
  (so after any sequence of earlier actions, and with any action still awaiting its remote
  call), when the listener has converted the documents, the callback returns normally and
  \<open>allContent\<close> is exactly the pushed sequence: an item added optimistically and missing
  from the push is gone. The same holds for the callback on any sequence of items none of
  whose kinds names an inherited property, as is the case when the kinds are the six.
\<close>

theorem content_push_replaces_allContent:
  "(map_docs docs = Inr items \<longrightarrow>
      fst (onSnapshot_content docs s) = Inr () \<and>
      allContent (snd (onSnapshot_content docs s)) = items) \<and>
   ((\<forall>item \<in> set snapshot. key_of (type item) \<notin> set Object_prototype) \<longrightarrow>
      fst (content_callback snapshot s) = Inr () \<and>
      allContent (snd (content_callback snapshot s)) = snapshot)"
proof -
  have "fst (onSnapshot_content docs s) = Inr () \<and>
      allContent (snd (onSnapshot_content docs s)) = items"
    if m: "map_docs docs = Inr items"
    using content_callback_apply(1,2) [OF map_docs_kind [OF m]]
    by (simp add: onSnapshot_content_def m)
  then show ?thesis
    using content_callback_apply(1,2) by blast
qed

theorem content_push_replaces_allContent_witness:
  "map_docs ex_docs = Inr [ex_decoded\<lparr> id_c := Some ''n9'' \<rparr>] \<and>
   allContent ex_store = [ex_note, ex_photo] \<and>
   fst (onSnapshot_content ex_docs ex_store) = Inr () \<and>
   allContent (snd (onSnapshot_content ex_docs ex_store)) = [ex_decoded\<lparr> id_c := Some ''n9'' \<rparr>] \<and>
   type ex_photo = Some PHOTO \<and>
   fst (content_callback [ex_photo] ex_store) = Inr () \<and>
   allContent (snd (content_callback [ex_photo] ex_store)) = [ex_photo]"
proof -
  have a: "map_docs ex_docs = Inr [ex_decoded\<lparr> id_c := Some ''n9'' \<rparr>]"
    by (simp add: ex_docs_def doc_to_content_def convertToContent_def baseContent_def
        millis_or_now_def no_fields_def or_string_def or_list_def or_false_def
        ex_record_def ex_decoded_def kind_defs)
  have b: "type ex_photo = Some PHOTO" "allContent ex_store = [ex_note, ex_photo]"
    by (simp_all add: ex_photo_def ex_store_def)
  have c: "\<forall>item \<in> set [ex_photo]. key_of (type item) \<notin> set Object_prototype"
    by (simp add: b key_of_def PHOTO_def Object_prototype_def)
  show ?thesis
    using content_push_replaces_allContent
      [where docs = ex_docs and items = "[ex_decoded\<lparr> id_c := Some ''n9'' \<rparr>]"
        and snapshot = "[ex_photo]" and s = ex_store] a b c
    by simp
qed

subsection \<open>The buckets after a push\<close>




section \<open>A failed create leaves the content alone\<close>

text \<open>
  C4. When the remote create inside \<open>addContent\<close> is rejected with an error, \<open>allContent\<close>
  and \<open>contentByType\<close> are what they were before the call, the error is stored in the
  field \<open>error\<close>, and the same error is thrown to the caller.
\<close>

theorem addContent_failure_keeps_content:
  "fst (addContent (Inl e) newItem s) = Inl e \<and>
   allContent (snd (addContent (Inl e) newItem s)) = allContent s \<and>
   contentByType (snd (addContent (Inl e) newItem s)) = contentByType s \<and>
   error (snd (addContent (Inl e) newItem s)) = Some e"
  by (simp add: addContent_def begin_call_def fail_def)

section \<open>Editing an id that is not in the store\<close>

text \<open>
  C3. When no item of \<open>allContent\<close> has the id, \<open>editContent\<close> with a remote update that
  succeeds still makes the remote call for that id, returns without an error, and leaves
  \<open>allContent\<close>, \<open>contentByType\<close> and \<open>selectedContent\<close> as they were.
\<close>

theorem editContent_absent_id:
  assumes "\<forall>item \<in> set (allContent s). id_c item \<noteq> Some contentId"
  shows "fst (editContent (Inr ()) contentId updates s) = Inr () \<and>
         gatewayCalls (snd (editContent (Inr ()) contentId updates s)) =
           gatewayCalls s @ [UpdateContent contentId updates] \<and>
         allContent (snd (editContent (Inr ()) contentId updates s)) = allContent s \<and>
         contentByType (snd (editContent (Inr ()) contentId updates s)) = contentByType s \<and>
         selectedContent (snd (editContent (Inr ()) contentId updates s)) = selectedContent s"
proof -
  have "find (has_id contentId) (allContent s) = None"
    using assms by (rule absent_find_None)
  then show ?thesis
    by (simp add: editContent_def begin_call_def)
qed

theorem editContent_absent_id_witness:
  "map id_c (allContent ex_store) = [Some ''n1'', Some ''p1''] \<and>
   fst (editContent (Inr ()) ''zz'' (no_fields\<lparr> isFavorite := Some True \<rparr>) ex_store) = Inr () \<and>
   gatewayCalls (snd (editContent (Inr ()) ''zz'' (no_fields\<lparr> isFavorite := Some True \<rparr>) ex_store)) =
     [UpdateContent ''zz'' (no_fields\<lparr> isFavorite := Some True \<rparr>)] \<and>
   allContent (snd (editContent (Inr ()) ''zz'' (no_fields\<lparr> isFavorite := Some True \<rparr>) ex_store)) =
     [ex_note, ex_photo] \<and>
   selectedContent (snd (editContent (Inr ()) ''zz'' (no_fields\<lparr> isFavorite := Some True \<rparr>) ex_store)) =
     Some ex_note"
  using editContent_absent_id [of ex_store "''zz''" "no_fields\<lparr> isFavorite := Some True \<rparr>"]
  by (simp add: ex_defs)

text \<open>
  C9. In the same situation (the id is in no item of \<open>allContent\<close>, the remote update
  succeeds) \<open>isLoading\<close> is true when \<open>editContent\<close> returns: it is set at entry, and the
  only \<open>set\<close> that resets it is inside the branch taken when the item is found.
\<close>

theorem editContent_absent_id_stays_loading:
  assumes "\<forall>item \<in> set (allContent s). id_c item \<noteq> Some contentId"
  shows "isLoading (snd (editContent (Inr ()) contentId updates s))"
proof -
  have "find (has_id contentId) (allContent s) = None"
    using assms by (rule absent_find_None)
  then show ?thesis
    by (simp add: editContent_def begin_call_def)
qed

theorem editContent_absent_id_stays_loading_witness:
  "\<not> isLoading ex_store \<and>
   find (has_id ''q9'') (allContent ex_store) = None \<and>
   isLoading (snd (editContent (Inr ()) ''q9'' (no_fields\<lparr> title := Some ''new'' \<rparr>) ex_store))"
  using editContent_absent_id_stays_loading [of ex_store "''q9''" "no_fields\<lparr> title := Some ''new'' \<rparr>"]
  by (simp add: ex_defs has_id_def)

section \<open>Selecting an id that is not in the store\<close>

text \<open>
  C7. \<open>selectContent\<close> with an id that no item of \<open>allContent\<close> has gives the state that
  \<open>selectContent(null)\<close> gives, with no selection; \<open>selectCollection\<close> does the same with
  the collections. Neither action can raise.
\<close>

theorem select_absent_id_clears:
  "((\<forall>item \<in> set (allContent s). id_c item \<noteq> Some contentId) \<longrightarrow>
      selectContent (Some contentId) s = selectContent None s \<and>
      selectedContent (selectContent (Some contentId) s) = None) \<and>
   ((\<forall>col \<in> set (collections_store s). id_col col \<noteq> collectionId) \<longrightarrow>
      selectCollection (Some collectionId) s = selectCollection None s \<and>
      selectedCollection (selectCollection (Some collectionId) s) = None)"
  by (auto simp: selectContent_def selectCollection_def absent_find_None absent_find_col_None)

theorem select_absent_id_clears_witness:
  "selectedContent ex_store = Some ex_note \<and>
   selectedContent (selectContent (Some ''zz'') ex_store) = None \<and>
   selectContent (Some ''zz'') ex_store = selectContent None ex_store \<and>
   selectedCollection (selectCollection (Some ''zz'') ex_store) = None \<and>
   selectCollection (Some ''zz'') ex_store = selectCollection None ex_store"
  using select_absent_id_clears [of ex_store "''zz''" "''zz''"]
  by (simp add: ex_defs selectContent_def selectCollection_def has_id_def has_id_col_def)

section \<open>Membership in collections\<close>

subsection \<open>What the nested actions change\<close>

lemma editContent_collections_store:
  "collections_store (snd (editContent r contentId updates s)) = collections_store s"
  by (simp add: editContent_def begin_call_def fail_def Let_def
      split: sum.splits option.splits Property.splits)

lemma editCollection_collections_store:
  "collections_store (snd (editCollection r collectionId updates s)) =
     (case r of Inl e \<Rightarrow> collections_store s
      | Inr u \<Rightarrow> map (edit_col collectionId updates) (collections_store s))"
  by (simp add: editCollection_def begin_call_def fail_def Let_def split: sum.splits)

lemma has_id_col_edit_col:
  "id_upd updates = None \<Longrightarrow> has_id_col k (edit_col k' updates x) = has_id_col k x"
  by (simp add: has_id_col_def edit_col_def spread_col_def replace_def)

lemma edit_col_count:
  "has_id_col k col \<Longrightarrow>
   edit_col k (no_updates\<lparr> contentCount_upd := Some n \<rparr>) col = col\<lparr> contentCount := n \<rparr>"
  by (simp add: edit_col_def spread_col_def replace_def override_def no_updates_def)

lemma second_write_allContent:
  "allContent (snd (case found of None \<Rightarrow> (Inr (), s1)
      | Some col \<Rightarrow> (case editCollection r k (u col) s1 of
          (Inl e, s2) \<Rightarrow> rethrow e s2 | (Inr v, s2) \<Rightarrow> (Inr (), s2)))) = allContent s1"
  by (cases found; cases r) (simp_all add: editCollection_def begin_call_def fail_def rethrow_def)

lemma second_write_result:
  "fst (case found of None \<Rightarrow> (Inr (), s1)
      | Some col \<Rightarrow> (case editCollection (Inr ()) k (u col) s1 of
          (Inl e, s2) \<Rightarrow> rethrow e s2 | (Inr v, s2) \<Rightarrow> (Inr (), s2))) = Inr ()"
  by (cases found) (simp_all add: editCollection_def begin_call_def fail_def rethrow_def)

subsection \<open>Removing never makes an integer count negative\<close>

lemma removeFromCollection_collections_store:
  "collections_store (snd (removeFromCollection r1 r2 contentId collectionId s)) = collections_store s \<or>
   (\<exists>col. find (has_id_col collectionId) (collections_store s) = Some col \<and>
      js_gt (contentCount col) (Finite 0) \<and>
      collections_store (snd (removeFromCollection r1 r2 contentId collectionId s)) =
        map (edit_col collectionId
              (no_updates\<lparr> contentCount_upd := Some (js_sub (contentCount col) (Finite 1)) \<rparr>))
          (collections_store s))"
proof (cases "find (has_id contentId) (allContent s)")
  case None
  then show ?thesis by (simp add: removeFromCollection_def rethrow_def)
next
  case (Some c)
  note found = this
  let ?u = "no_fields\<lparr> collections :=
      Some (case collections c of None \<Rightarrow> [] | Some l \<Rightarrow> filter (\<lambda>i. i \<noteq> collectionId) l) \<rparr>"
  obtain q s1 where e: "editContent r1 contentId ?u s = (q, s1)" by force
  have c1: "collections_store s1 = collections_store s"
    using editContent_collections_store [of r1 contentId ?u s] e by simp
  show ?thesis
  proof (cases q)
    case (Inl err)
    then show ?thesis using found e c1 by (simp add: removeFromCollection_def rethrow_def)
  next
    case (Inr u)
    show ?thesis
    proof (cases "find (has_id_col collectionId) (collections_store s)")
      case None
      then show ?thesis using found e c1 Inr by (simp add: removeFromCollection_def)
    next
      case (Some col)
      note col = this
      show ?thesis
      proof (cases "js_gt (contentCount col) (Finite 0)")
        case False
        then show ?thesis using found e c1 Inr col
          by (simp add: removeFromCollection_def)
      next
        case True
        let ?v = "no_updates\<lparr> contentCount_upd := Some (js_sub (contentCount col) (Finite 1)) \<rparr>"
        obtain q2 s2 where e2: "editCollection r2 collectionId ?v s1 = (q2, s2)" by force
        have c2: "collections_store s2 = (case r2 of Inl e \<Rightarrow> collections_store s
            | Inr u \<Rightarrow> map (edit_col collectionId ?v) (collections_store s))"
          using editCollection_collections_store [of r2 collectionId ?v s1] e2 c1
          by (cases r2) simp_all
        have res: "collections_store (snd (removeFromCollection r1 r2 contentId collectionId s)) =
            collections_store s2"
          using found e Inr col True e2
          by (cases q2) (simp_all add: removeFromCollection_def rethrow_def)
        show ?thesis
          using res c2 col True by (cases r2) simp_all
      qed
    qed
  qed
qed

lemma edit_col_count_nonneg:
  "js_ge (contentCount col) (Finite 0) \<Longrightarrow> js_ge n (Finite 0) \<Longrightarrow>
   js_ge (contentCount (edit_col k (no_updates\<lparr> contentCount_upd := Some n \<rparr>) col)) (Finite 0)"
  by (simp add: edit_col_def spread_col_def replace_def no_updates_def)

text \<open>
  C6, as the code has it. If every collection of the store has a count that is an integer
  and is not negative, then after \<open>removeFromCollection\<close>, whatever the outcomes of its two
  remote calls, every collection has a count that is not negative. The collections are
  left as they were, or the collection found for the id had a count above zero and that
  count less one was written.
\<close>

theorem removeFromCollection_count_nonneg:
  assumes "\<forall>col \<in> set (collections_store s).
             isInteger (contentCount col) \<and> js_ge (contentCount col) (Finite 0)"
  shows "(\<forall>col \<in> set (collections_store (snd (removeFromCollection r1 r2 contentId collectionId s))).
            js_ge (contentCount col) (Finite 0)) \<and>
         (collections_store (snd (removeFromCollection r1 r2 contentId collectionId s)) = collections_store s \<or>
          (\<exists>col. find (has_id_col collectionId) (collections_store s) = Some col \<and>
             js_gt (contentCount col) (Finite 0) \<and>
             collections_store (snd (removeFromCollection r1 r2 contentId collectionId s)) =
               map (edit_col collectionId
                     (no_updates\<lparr> contentCount_upd := Some (js_sub (contentCount col) (Finite 1)) \<rparr>))
                 (collections_store s)))"
proof -
  let ?after = "collections_store (snd (removeFromCollection r1 r2 contentId collectionId s))"
  have step: "?after = collections_store s \<or>
     (\<exists>col. find (has_id_col collectionId) (collections_store s) = Some col \<and>
        js_gt (contentCount col) (Finite 0) \<and>
        ?after = map (edit_col collectionId
              (no_updates\<lparr> contentCount_upd := Some (js_sub (contentCount col) (Finite 1)) \<rparr>))
          (collections_store s))"
    by (rule removeFromCollection_collections_store)
  have "\<forall>col \<in> set ?after. js_ge (contentCount col) (Finite 0)"
    using step
  proof
    assume "?after = collections_store s"
    then show ?thesis using assms by simp
  next
    assume "\<exists>col. find (has_id_col collectionId) (collections_store s) = Some col \<and>
        js_gt (contentCount col) (Finite 0) \<and>
        ?after = map (edit_col collectionId
              (no_updates\<lparr> contentCount_upd := Some (js_sub (contentCount col) (Finite 1)) \<rparr>))
          (collections_store s)"
    then obtain col :: ContentCollection
      where found: "find (has_id_col collectionId) (collections_store s) = Some col"
      and pos: "js_gt (contentCount col) (Finite 0)"
      and eq: "?after = map (edit_col collectionId
          (no_updates\<lparr> contentCount_upd := Some (js_sub (contentCount col) (Finite 1)) \<rparr>))
          (collections_store s)"
      by blast
    have "col \<in> set (collections_store s)"
      using found by (auto simp: find_Some_iff)
    then have "isInteger (contentCount col)" using assms by blast
    then have "js_ge (js_sub (contentCount col) (Finite 1)) (Finite 0)"
      using pos by (rule positive_integer_sub_1)
    then show ?thesis
      unfolding eq using assms by (auto intro!: edit_col_count_nonneg)
  qed
  then show ?thesis using step by blast
qed

theorem removeFromCollection_count_nonneg_witness:
  "map contentCount (collections_store ex_store) = [Finite 1] \<and>
   isInteger (Finite 1) \<and> js_ge (Finite 1) (Finite 0) \<and>
   map contentCount
     (collections_store (snd (removeFromCollection (Inr ()) (Inr ()) ''n1'' ''k1'' ex_store))) =
     [Finite 0] \<and>
   js_ge (Finite 0) (Finite 0)"
proof -
  let ?s1 = "snd (removeFromCollection (Inr ()) (Inr ()) ''n1'' ''k1'' ex_store)"
  have a: "map contentCount (collections_store ex_store) = [Finite 1]"
    by (simp add: ex_defs)
  have i: "isInteger (Finite 1)" "js_ge (Finite 1) (Finite 0)" "js_ge (Finite 0) (Finite 0)"
    "js_gt (Finite 1) (Finite 0)" "js_sub (Finite 1) (Finite 1) = Finite 0"
    by (simp_all add: isInteger_def js_ge_def js_gt_def js_sub_def round_double_def)
  have h: "\<forall>col \<in> set (collections_store ex_store).
      isInteger (contentCount col) \<and> js_ge (contentCount col) (Finite 0)"
    by (simp add: ex_defs i)
  have f: "find (has_id_col ''k1'') (collections_store ex_store) = Some ex_collection"
    "contentCount ex_collection = Finite 1" "collections_store ex_store = [ex_collection]"
    "has_id_col ''k1'' ex_collection"
    by (simp_all add: ex_defs has_id_col_def)
  have g: "collections_store ?s1 \<noteq> collections_store ex_store"
    by (simp add: removeFromCollection_def editContent_def editCollection_def begin_call_def
        fail_def rethrow_def has_id_def has_id_col_def edit_col_def edit_item_def spread_col_def
        replace_def override_def no_updates_def key_of_def emptyByType_def get_property_def
        ex_defs kind_defs i)
  have b: "map contentCount (collections_store ?s1) = [Finite 0]"
    using removeFromCollection_count_nonneg [OF h, of "Inr ()" "Inr ()" "''n1''" "''k1''"] g
    by (auto simp: f i edit_col_count)
  show ?thesis using a b i by simp
qed

text \<open>
  The claim C6 as stated fails for a count that is not an integer: one half is above zero,
  so the count less one is written, and that is minus one half.
\<close>

theorem removeFromCollection_count_nonneg_counterexample:
  "map contentCount (collections_store ex_store_half) = [Finite (1 / 2)] \<and>
   js_ge (Finite (1 / 2)) (Finite 0) \<and>
   map contentCount
     (collections_store (snd (removeFromCollection (Inr ()) (Inr ()) ''n1'' ''k1'' ex_store_half))) =
     [Finite (- (1 / 2))] \<and>
   \<not> js_ge (Finite (- (1 / 2))) (Finite 0)"
proof -
  have i: "js_gt (Finite (1 / 2)) (Finite 0)"
    "js_sub (Finite (1 / 2)) (Finite 1) = Finite (- (1 / 2))"
    "js_ge (Finite (1 / 2)) (Finite 0)" "\<not> js_ge (Finite (- (1 / 2))) (Finite 0)"
    by (simp_all add: js_gt_def js_sub_def js_ge_def round_double_minus_half)
  show ?thesis
    by (simp add: removeFromCollection_def editContent_def editCollection_def begin_call_def
        fail_def rethrow_def has_id_def has_id_col_def edit_col_def edit_item_def spread_col_def
        replace_def override_def no_updates_def key_of_def emptyByType_def get_property_def
        ex_defs kind_defs i)
qed

subsection \<open>Adding to a collection the item is already in\<close>

text \<open>
  C8, as the code has it. Let \<open>c\<close> be the item that the lookup by id finds in \<open>allContent\<close>
  (the first with that id) and \<open>col\<close> the collection that the lookup by id finds in the
  collections. When \<open>c\<close> already lists the collection, \<open>addToCollection\<close> is exactly the
  \<open>editCollection\<close> that writes the count read at entry plus one, in the arithmetic of
  JavaScript numbers: the only remote call it makes is that update (no \<open>editContent\<close>, no
  membership write), \<open>allContent\<close> is left as it was, and when the update succeeds the
  collection found for the id has that count. When the count read is a safe integer, the
  count written is exactly one more.
\<close>

theorem addToCollection_already_member:
  assumes "find (has_id contentId) (allContent s) = Some c"
      and "collectionId \<in> set (or_list (collections c))"
      and "find (has_id_col collectionId) (collections_store s) = Some col"
  shows "addToCollection shared r1 r2 contentId collectionId s =
           (case editCollection r2 collectionId
                   (no_updates\<lparr> contentCount_upd := Some (js_add (contentCount col) (Finite 1)) \<rparr>) s of
              (Inl e, s2) \<Rightarrow> rethrow e s2 | (Inr u, s2) \<Rightarrow> (Inr (), s2)) \<and>
         gatewayCalls (snd (addToCollection shared r1 r2 contentId collectionId s)) =
           gatewayCalls s @
             [UpdateCollection collectionId
                (no_updates\<lparr> contentCount_upd := Some (js_add (contentCount col) (Finite 1)) \<rparr>)] \<and>
         allContent (snd (addToCollection shared r1 r2 contentId collectionId s)) = allContent s \<and>
         (r2 = Inr () \<longrightarrow>
            fst (addToCollection shared r1 r2 contentId collectionId s) = Inr () \<and>
            find (has_id_col collectionId)
              (collections_store (snd (addToCollection shared r1 r2 contentId collectionId s))) =
              Some (col\<lparr> contentCount := js_add (contentCount col) (Finite 1) \<rparr>)) \<and>
         (isSafeInteger (contentCount col) \<longrightarrow>
            (\<exists>n. contentCount col = Finite n \<and>
               js_add (contentCount col) (Finite 1) = Finite (n + 1)))"
proof -
  let ?u = "no_updates\<lparr> contentCount_upd := Some (js_add (contentCount col) (Finite 1)) \<rparr>"
  have red: "addToCollection shared r1 r2 contentId collectionId s =
           (case editCollection r2 collectionId ?u s of
              (Inl e, s2) \<Rightarrow> rethrow e s2 | (Inr u, s2) \<Rightarrow> (Inr (), s2))"
    using assms by (simp add: addToCollection_def)
  have col: "has_id_col collectionId col"
    using assms(3) by (auto simp: find_Some_iff)
  have idu: "id_upd ?u = None" by (simp add: no_updates_def)
  have fm: "find (has_id_col collectionId) (map (edit_col collectionId ?u) (collections_store s)) =
        Some (col\<lparr> contentCount := js_add (contentCount col) (Finite 1) \<rparr>)"
    using assms(3) col
    by (simp add: find_map_same has_id_col_edit_col idu edit_col_count)
  have safe: "isSafeInteger (contentCount col) \<longrightarrow>
      (\<exists>n. contentCount col = Finite n \<and> js_add (contentCount col) (Finite 1) = Finite (n + 1))"
    using safe_integer_add_1 by blast
  have rest: "gatewayCalls (snd (addToCollection shared r1 r2 contentId collectionId s)) =
           gatewayCalls s @ [UpdateCollection collectionId ?u] \<and>
         allContent (snd (addToCollection shared r1 r2 contentId collectionId s)) = allContent s \<and>
         (r2 = Inr () \<longrightarrow>
            fst (addToCollection shared r1 r2 contentId collectionId s) = Inr () \<and>
            find (has_id_col collectionId)
              (collections_store (snd (addToCollection shared r1 r2 contentId collectionId s))) =
              Some (col\<lparr> contentCount := js_add (contentCount col) (Finite 1) \<rparr>))"
    unfolding red using fm
    by (cases r2) (simp_all add: editCollection_def begin_call_def fail_def rethrow_def)
  show ?thesis
    using red rest safe by blast
qed

theorem addToCollection_already_member_witness:
  "find (has_id ''n1'') (allContent ex_store) = Some ex_note \<and>
   collections ex_note = Some [''k1''] \<and>
   find (has_id_col ''k1'') (collections_store ex_store) = Some ex_collection \<and>
   contentCount ex_collection = Finite 1 \<and>
   isSafeInteger (Finite 1) \<and>
   js_add (Finite 1) (Finite 1) = Finite 2 \<and>
   gatewayCalls (snd (addToCollection ex_unshared (Inr ()) (Inr ()) ''n1'' ''k1'' ex_store)) =
     [UpdateCollection ''k1'' (no_updates\<lparr> contentCount_upd := Some (Finite 2) \<rparr>)] \<and>
   allContent (snd (addToCollection ex_unshared (Inr ()) (Inr ()) ''n1'' ''k1'' ex_store)) =
     [ex_note, ex_photo] \<and>
   fst (addToCollection ex_unshared (Inr ()) (Inr ()) ''n1'' ''k1'' ex_store) = Inr () \<and>
   find (has_id_col ''k1'')
     (collections_store (snd (addToCollection ex_unshared (Inr ()) (Inr ()) ''n1'' ''k1'' ex_store))) =
     Some (ex_collection\<lparr> contentCount := Finite 2 \<rparr>)"
proof -
  have a: "find (has_id ''n1'') (allContent ex_store) = Some ex_note"
    by (simp add: ex_defs has_id_def)
  have b: "''k1'' \<in> set (or_list (collections ex_note))"
    by (simp add: ex_defs or_list_def)
  have c: "find (has_id_col ''k1'') (collections_store ex_store) = Some ex_collection"
    by (simp add: ex_defs has_id_col_def)
  have d: "contentCount ex_collection = Finite 1" "collections ex_note = Some [''k1'']"
    "gatewayCalls ex_store = []" "allContent ex_store = [ex_note, ex_photo]"
    by (simp_all add: ex_defs)
  have e: "isSafeInteger (Finite 1)"
    by (simp add: isSafeInteger_def)
  show ?thesis
    using addToCollection_already_member [OF a b c, of ex_unshared "Inr ()" "Inr ()", THEN conjunct2]
      a c d e
    by auto
qed

text \<open>
  The claim C8 as stated fails when two items of \<open>allContent\<close> have the same id and the
  first does not list the collection: the second is an item of \<open>allContent\<close> that lists it,
  yet the lookup finds the first, and the membership write is made.
\<close>

theorem addToCollection_already_member_counterexample:
  "allContent ex_store_shadow = [ex_first, ex_second] \<and>
   id_c ex_second = Some ''x1'' \<and>
   collections ex_second = Some [''k1''] \<and>
   find (has_id_col ''k1'') (collections_store ex_store_shadow) = Some ex_collection \<and>
   gatewayCalls ex_store_shadow = [] \<and>
   gatewayCalls (snd (addToCollection ex_unshared (Inr ()) (Inr ()) ''x1'' ''k1'' ex_store_shadow)) =
     [UpdateContent ''x1'' (no_fields\<lparr> collections := Some [''k1''] \<rparr>),
      UpdateCollection ''k1'' (no_updates\<lparr> contentCount_upd := Some (Finite 2) \<rparr>)]"
proof -
  have i: "js_add (Finite 1) (Finite 1) = Finite 2"
    by (simp add: js_add_def round_double_examples)
  show ?thesis
    by (simp add: addToCollection_def editContent_def editCollection_def begin_call_def fail_def
        rethrow_def has_id_def has_id_col_def edit_col_def edit_item_def spread_def spread_col_def
        replace_def override_def no_updates_def no_fields_def key_of_def emptyByType_def
        or_list_def array_push_def pushed_at_def first_index_def get_property_def Let_def
        ex_defs kind_defs i)
qed

subsection \<open>Adding twice\<close>

lemma has_id_pushed_at: "has_id cid (pushed_at b bf af x) = has_id cid x"
  by (simp add: has_id_def pushed_at_def)

lemma ids_array_push:
  "map id_c (allContent (array_push shared bf af s)) = map id_c (allContent s)"
proof -
  have "id_c \<circ> (\<lambda>(i, item). pushed_at (shared (InAllContent i)) bf af item) = id_c \<circ> snd"
    by (auto simp: fun_eq_iff pushed_at_def)
  then have "map id_c (map (\<lambda>(i, item). pushed_at (shared (InAllContent i)) bf af item)
      (enumerate 0 (allContent s))) = map id_c (map snd (enumerate 0 (allContent s)))"
    by (simp only: map_map)
  then show ?thesis
    by (simp add: array_push_def)
qed

lemma find_array_push:
  "(find (has_id cid) (allContent (array_push shared bf af s)) = None) =
   (find (has_id cid) (allContent s) = None)"
  by (simp only: find_has_id_None ids_array_push)

lemma has_id_edit_item:
  "id_c updates = None \<Longrightarrow> has_id cid (edit_item cid' updates x) = has_id cid x"
  by (simp add: has_id_def edit_item_def spread_def override_def)

lemma editContent_success:
  assumes "editContent (Inr ()) cid updates s = (Inr (), s')"
      and "find (has_id cid) (allContent s) \<noteq> None"
  shows "allContent s' = map (edit_item cid updates) (allContent s)"
  using assms
  by (auto simp: editContent_def begin_call_def fail_def Let_def
      split: option.splits Property.splits)

lemma addToCollection_skip:
  assumes "find (has_id cid) (allContent s) = Some c"
      and "k \<in> set (or_list (collections c))"
  shows "allContent (snd (addToCollection shared r1 r2 cid k s)) = allContent s"
    and "fst (addToCollection shared r1 (Inr ()) cid k s) = Inr ()"
  using assms
  by (simp_all add: addToCollection_def second_write_allContent second_write_result)

lemma addToCollection_push:
  assumes f: "find (has_id cid) (allContent s) = Some c"
      and k: "k \<notin> set (or_list (collections c))"
      and r: "addToCollection shared (Inr ()) r2 cid k s = (Inr (), s1)"
  shows "\<exists>c1. find (has_id cid) (allContent s1) = Some c1 \<and>
               collections c1 = Some (or_list (collections c) @ [k])"
proof -
  let ?after = "or_list (collections c) @ [k]"
  let ?u = "no_fields\<lparr> collections := Some ?after \<rparr> :: Content"
  let ?s0 = "case collections c of None \<Rightarrow> s
     | Some l \<Rightarrow> array_push (shared(InAllContent (first_index (has_id cid) (allContent s)) := True))
         (collections c) ?after s"
  obtain q s' where e: "editContent (Inr ()) cid ?u ?s0 = (q, s')" by force
  have unf: "addToCollection shared (Inr ()) r2 cid k s =
     (case (q, s') of (Inl e, s1) \<Rightarrow> rethrow e s1
      | (Inr v, s1) \<Rightarrow> (case find (has_id_col k) (collections_store s) of None \<Rightarrow> (Inr (), s1)
          | Some col \<Rightarrow>
              (case editCollection r2 k
                      (no_updates\<lparr> contentCount_upd := Some (js_add (contentCount col) (Finite 1)) \<rparr>)
                      s1 of
                 (Inl e, s2) \<Rightarrow> rethrow e s2 | (Inr v, s2) \<Rightarrow> (Inr (), s2))))"
    using f k e by (simp add: addToCollection_def Let_def)
  have q: "q = Inr ()"
    using r unf by (cases q) (simp_all add: rethrow_def)
  have "allContent s1 = allContent (snd (addToCollection shared (Inr ()) r2 cid k s))"
    using r by simp
  also have "\<dots> = allContent s'"
    unfolding unf q by (simp add: second_write_allContent)
  finally have all1: "allContent s1 = allContent s'" .
  have ex0: "find (has_id cid) (allContent ?s0) \<noteq> None"
    using f by (cases "collections c") (simp_all add: find_array_push)
  then obtain c0 where c0: "find (has_id cid) (allContent ?s0) = Some c0" by blast
  have "allContent s' = map (edit_item cid ?u) (allContent ?s0)"
    using editContent_success [of cid ?u ?s0 s'] e q ex0 by simp
  then have "find (has_id cid) (allContent s1) = Some (edit_item cid ?u c0)"
    using all1 c0 by (simp add: find_map_same has_id_edit_item no_fields_def)
  moreover have "has_id cid c0"
    using c0 by (auto simp: find_Some_iff)
  then have "collections (edit_item cid ?u c0) = Some ?after"
    by (simp add: edit_item_def spread_def override_def)
  ultimately show ?thesis by blast
qed

text \<open>
  C5, as the code has it. Let \<open>c\<close> be the item that the lookup by id finds, and let its list
  hold the collection id at most once. If \<open>addToCollection\<close> with successful remote writes
  returns normally, then a second \<open>addToCollection\<close> with successful remote writes returns
  normally too, and the item then found for the id lists the collection exactly once.
  This holds whatever places of the state share the item's array.
\<close>

theorem addToCollection_twice:
  assumes f: "find (has_id contentId) (allContent s) = Some c"
      and once: "count_list (or_list (collections c)) collectionId \<le> 1"
      and first: "addToCollection shared (Inr ()) (Inr ()) contentId collectionId s = (Inr (), s1)"
  shows "fst (addToCollection shared' (Inr ()) (Inr ()) contentId collectionId s1) = Inr () \<and>
         (\<exists>c2. find (has_id contentId)
                 (allContent (snd (addToCollection shared' (Inr ()) (Inr ()) contentId collectionId s1))) =
                 Some c2 \<and>
               count_list (or_list (collections c2)) collectionId = 1)"
proof -
  have "\<exists>c1. find (has_id contentId) (allContent s1) = Some c1 \<and>
          collectionId \<in> set (or_list (collections c1)) \<and>
          count_list (or_list (collections c1)) collectionId = 1"
  proof (cases "collectionId \<in> set (or_list (collections c))")
    case True
    have "allContent s1 = allContent s"
      using addToCollection_skip(1)
        [OF f True, where shared = shared and ?r1.0 = "Inr ()" and ?r2.0 = "Inr ()"] first
      by simp
    moreover have "count_list (or_list (collections c)) collectionId = 1"
      using True once count_list_0_iff [of "or_list (collections c)" collectionId]
      by (cases "count_list (or_list (collections c)) collectionId") auto
    ultimately show ?thesis using f True by simp
  next
    case False
    then obtain c1 where "find (has_id contentId) (allContent s1) = Some c1"
      and "collections c1 = Some (or_list (collections c) @ [collectionId])"
      using addToCollection_push [OF f False first] by blast
    moreover have "count_list (or_list (collections c)) collectionId = 0"
      using False by (simp add: count_list_0_iff)
    ultimately show ?thesis by (simp add: or_list_def)
  qed
  then obtain c1 where c1: "find (has_id contentId) (allContent s1) = Some c1"
    and m: "collectionId \<in> set (or_list (collections c1))"
    and n: "count_list (or_list (collections c1)) collectionId = 1"
    by blast
  show ?thesis
    using addToCollection_skip(1)
        [OF c1 m, where shared = shared' and ?r1.0 = "Inr ()" and ?r2.0 = "Inr ()"]
      addToCollection_skip(2) [OF c1 m, where shared = shared' and ?r1.0 = "Inr ()"] c1 n
    by simp
qed

lemmas run_defs = addToCollection_def removeFromCollection_def editContent_def editCollection_def
  begin_call_def fail_def rethrow_def has_id_def has_id_col_def edit_col_def edit_item_def
  spread_def spread_col_def replace_def override_def no_updates_def no_fields_def key_of_def
  emptyByType_def or_list_def array_push_def pushed_at_def first_index_def get_property_def
  Object_prototype_def

theorem addToCollection_twice_witness:
  "find (has_id ''p1'') (allContent ex_store) = Some ex_photo \<and>
   collections ex_photo = None \<and>
   fst (addToCollection ex_unshared (Inr ()) (Inr ()) ''p1'' ''k1'' ex_store) = Inr () \<and>
   fst (addToCollection ex_unshared (Inr ()) (Inr ()) ''p1'' ''k1''
          (snd (addToCollection ex_unshared (Inr ()) (Inr ()) ''p1'' ''k1'' ex_store))) = Inr () \<and>
   (\<exists>c2. find (has_id ''p1'')
      (allContent (snd (addToCollection ex_unshared (Inr ()) (Inr ()) ''p1'' ''k1''
          (snd (addToCollection ex_unshared (Inr ()) (Inr ()) ''p1'' ''k1'' ex_store))))) = Some c2 \<and>
      count_list (or_list (collections c2)) ''k1'' = 1)"
proof -
  let ?s1 = "snd (addToCollection ex_unshared (Inr ()) (Inr ()) ''p1'' ''k1'' ex_store)"
  have a: "find (has_id ''p1'') (allContent ex_store) = Some ex_photo"
    by (simp add: ex_defs has_id_def)
  have b: "collections ex_photo = None"
    by (simp add: ex_defs no_fields_def)
  have c: "count_list (or_list (collections ex_photo)) ''k1'' \<le> 1"
    by (simp add: b or_list_def)
  have d: "fst (addToCollection ex_unshared (Inr ()) (Inr ()) ''p1'' ''k1'' ex_store) = Inr ()"
    by (simp add: run_defs ex_defs kind_defs)
  then have e: "addToCollection ex_unshared (Inr ()) (Inr ()) ''p1'' ''k1'' ex_store = (Inr (), ?s1)"
    by (simp add: prod_eq_iff)
  show ?thesis
    using addToCollection_twice [OF a c e, of ex_unshared] a b d by simp
qed

text \<open>
  The claim C5 as stated fails for an item whose list already holds the collection id
  twice: both calls find the id in the list and leave the list alone.
\<close>

theorem addToCollection_twice_counterexample:
  "find (has_id ''d1'') (allContent ex_store_twice) = Some ex_twice \<and>
   fst (addToCollection ex_unshared (Inr ()) (Inr ()) ''d1'' ''k1'' ex_store_twice) = Inr () \<and>
   fst (addToCollection ex_unshared (Inr ()) (Inr ()) ''d1'' ''k1''
          (snd (addToCollection ex_unshared (Inr ()) (Inr ()) ''d1'' ''k1'' ex_store_twice))) = Inr () \<and>
   allContent (snd (addToCollection ex_unshared (Inr ()) (Inr ()) ''d1'' ''k1''
          (snd (addToCollection ex_unshared (Inr ()) (Inr ()) ''d1'' ''k1'' ex_store_twice)))) =
     [ex_twice] \<and>
   count_list (or_list (collections ex_twice)) ''k1'' = 2"
proof -
  let ?s1 = "snd (addToCollection ex_unshared (Inr ()) (Inr ()) ''d1'' ''k1'' ex_store_twice)"
  have all0: "allContent ex_store_twice = [ex_twice]"
    by (simp add: ex_store_twice_def)
  have l: "or_list (collections ex_twice) = [''k1'', ''k1'']"
    by (simp add: ex_twice_def or_list_def)
  have a: "find (has_id ''d1'') (allContent ex_store_twice) = Some ex_twice"
    by (simp add: all0 has_id_def ex_twice_def)
  have m: "''k1'' \<in> set (or_list (collections ex_twice))"
    by (simp add: l)
  have all1: "allContent ?s1 = [ex_twice]"
    using addToCollection_skip(1) [OF a m, where shared = ex_unshared and ?r1.0 = "Inr ()"
        and ?r2.0 = "Inr ()"] all0
    by simp
  have a1: "find (has_id ''d1'') (allContent ?s1) = Some ex_twice"
    by (simp add: all1 has_id_def ex_twice_def)
  have all2: "allContent (snd (addToCollection ex_unshared (Inr ()) (Inr ()) ''d1'' ''k1'' ?s1)) =
      [ex_twice]"
    using addToCollection_skip(1) [OF a1 m, where shared = ex_unshared and ?r1.0 = "Inr ()"
        and ?r2.0 = "Inr ()"] all1
    by simp
  show ?thesis
    using a all2 addToCollection_skip(2) [OF a m, where shared = ex_unshared and ?r1.0 = "Inr ()"]
      addToCollection_skip(2) [OF a1 m, where shared = ex_unshared and ?r1.0 = "Inr ()"]
    by (simp add: l)
qed

section \<open>The round trip of the gateway's mapping\<close>

lemma or_cases:
  "or_string x = (case x of None \<Rightarrow> [] | Some d \<Rightarrow> d)"
  "or_list y = (case y of None \<Rightarrow> [] | Some d \<Rightarrow> d)"
  "or_false z = (case z of None \<Rightarrow> False | Some d \<Rightarrow> d)"
  by (auto simp: or_string_def or_list_def or_false_def split: option.splits)

lemma millis_or_now_read:
  "t \<noteq> Some ServerTimestamp \<Longrightarrow> \<exists>ms. millis_or_now now t = Inr ms"
  by (auto simp: millis_or_now_def split: option.splits FieldValue.splits)

lemma known_kind_cases:
  assumes "t \<in> Some ` set ContentType"
  obtains "t = Some PHOTO" | "t = Some DOCUMENT" | "t = Some CODE"
    | "t = Some NOTE" | "t = Some ART" | "t = Some LINK"
  using assms by (auto simp: ContentType_def)

lemmas convert_defs = convertToContent_def convertFromContent_def baseContent_def baseData_def
  declared_fields_def base_fields_def with_defaults_def no_fields_def or_cases

lemma decode_then_encode:
  assumes "type d \<in> Some ` set ContentType"
      and "createdAt d \<noteq> Some ServerTimestamp"
      and "updatedAt d \<noteq> Some ServerTimestamp"
  shows "\<exists>c. convertToContent now1 now2 d = Inr c \<and>
     convertFromContent c =
       Inr ((declared_fields (with_defaults d))\<lparr> id_c := None,
          createdAt := (if id_c d = None \<or> id_c d = Some [] then Some ServerTimestamp else None),
          updatedAt := Some ServerTimestamp \<rparr>)"
proof -
  obtain t1 where t1: "millis_or_now now1 (createdAt d) = Inr t1"
    using assms(2) millis_or_now_read by blast
  obtain t2 where t2: "millis_or_now now2 (updatedAt d) = Inr t2"
    using assms(3) millis_or_now_read by blast
  from assms(1) show ?thesis
  proof (cases rule: known_kind_cases)
    case 1
    then show ?thesis by (simp add: convert_defs t1 t2)
  next
    case 2
    then show ?thesis by (simp add: convert_defs t1 t2 kind_defs)
  next
    case 3
    then show ?thesis by (simp add: convert_defs t1 t2 kind_defs)
  next
    case 4
    then show ?thesis by (simp add: convert_defs t1 t2 kind_defs)
  next
    case 5
    then show ?thesis by (simp add: convert_defs t1 t2 kind_defs)
  next
    case 6
    then show ?thesis by (simp add: convert_defs t1 t2 kind_defs)
  qed
qed

lemma encode_then_decode:
  assumes "type item \<in> Some ` set ContentType"
      and "tc \<noteq> 0" and "tu \<noteq> 0"
  shows "\<exists>d. convertFromContent item = Inr d \<and>
     convertToContent now1 now2
         (d\<lparr> createdAt := Some (Timestamp tc), updatedAt := Some (Timestamp tu) \<rparr>) =
       Inr ((declared_fields (with_defaults item))\<lparr> id_c := None,
          createdAt := Some tc, updatedAt := Some tu \<rparr>)"
  using assms(1)
proof (cases rule: known_kind_cases)
  case 1
  then show ?thesis using assms(2,3) by (simp add: convert_defs millis_or_now_def)
next
  case 2
  then show ?thesis using assms(2,3) by (simp add: convert_defs millis_or_now_def kind_defs)
next
  case 3
  then show ?thesis using assms(2,3) by (simp add: convert_defs millis_or_now_def kind_defs)
next
  case 4
  then show ?thesis using assms(2,3) by (simp add: convert_defs millis_or_now_def kind_defs)
next
  case 5
  then show ?thesis using assms(2,3) by (simp add: convert_defs millis_or_now_def kind_defs)
next
  case 6
  then show ?thesis using assms(2,3) by (simp add: convert_defs millis_or_now_def kind_defs)
qed

text \<open>
  C1, as the code has it. For a record of one of the six kinds whose two times are not the
  write sentinel, \<open>convertToContent\<close> succeeds, and \<open>convertFromContent\<close> of its result is
  the record with the defaults filled in and the fields its kind does not declare dropped,
  except for three fields: the id is left out, \<open>updatedAt\<close> is the sentinel, and \<open>createdAt\<close>
  is the sentinel when the record has no id and is left out otherwise.
  For an item of one of the six kinds, \<open>convertFromContent\<close> succeeds, and once the two
  sentinels of its result have been replaced by times other than zero, \<open>convertToContent\<close>
  gives the item with the defaults filled in and the undeclared fields dropped, except for
  the same three fields: no id, and the two times of the record.
\<close>

theorem convert_round_trip:
  "(type d \<in> Some ` set ContentType \<and> createdAt d \<noteq> Some ServerTimestamp \<and>
    updatedAt d \<noteq> Some ServerTimestamp \<longrightarrow>
      (\<exists>c. convertToContent now1 now2 d = Inr c \<and>
         convertFromContent c =
           Inr ((declared_fields (with_defaults d))\<lparr> id_c := None,
              createdAt := (if id_c d = None \<or> id_c d = Some [] then Some ServerTimestamp else None),
              updatedAt := Some ServerTimestamp \<rparr>))) \<and>
   (type item \<in> Some ` set ContentType \<and> tc \<noteq> 0 \<and> tu \<noteq> 0 \<longrightarrow>
      (\<exists>d'. convertFromContent item = Inr d' \<and>
         convertToContent now1 now2
             (d'\<lparr> createdAt := Some (Timestamp tc), updatedAt := Some (Timestamp tu) \<rparr>) =
           Inr ((declared_fields (with_defaults item))\<lparr> id_c := None,
              createdAt := Some tc, updatedAt := Some tu \<rparr>)))"
  using decode_then_encode [of d now1 now2] encode_then_decode [of item tc tu now1 now2]
  by blast

theorem convert_round_trip_witness:
  "type ex_record = Some NOTE \<and> createdAt ex_record = Some (Timestamp 1000) \<and>
   updatedAt ex_record = Some (Timestamp 2000) \<and>
   (\<exists>c. convertToContent 5 6 ex_record = Inr c \<and>
      convertFromContent c =
        Inr (ex_record\<lparr> createdAt := Some ServerTimestamp, updatedAt := Some ServerTimestamp \<rparr>)) \<and>
   type ex_photo = Some PHOTO \<and>
   (\<exists>d'. convertFromContent ex_photo = Inr d' \<and>
      convertToContent 5 6 (d'\<lparr> createdAt := Some (Timestamp 1000), updatedAt := Some (Timestamp 2000) \<rparr>) =
        Inr (ex_photo\<lparr> id_c := None, description := Some [], tags := Some [],
               isFavorite := Some False, isPublic := Some False, collections := Some [],
               createdAt := Some 1000, updatedAt := Some 2000 \<rparr>))"
proof -
  have r: "declared_fields (with_defaults ex_record) = ex_record"
    by (simp add: declared_fields_def base_fields_def with_defaults_def no_fields_def
        ex_record_def kind_defs)
  have p: "(declared_fields (with_defaults ex_photo))\<lparr> id_c := None,
        createdAt := Some 1000, updatedAt := Some 2000 \<rparr> =
      ex_photo\<lparr> id_c := None, description := Some [], tags := Some [],
        isFavorite := Some False, isPublic := Some False, collections := Some [],
        createdAt := Some 1000, updatedAt := Some 2000 \<rparr>"
    by (simp add: declared_fields_def base_fields_def with_defaults_def no_fields_def
        ex_photo_def kind_defs)
  have f: "type ex_record = Some NOTE" "createdAt ex_record = Some (Timestamp 1000)"
    "updatedAt ex_record = Some (Timestamp 2000)" "id_c ex_record = None"
    "type ex_photo = Some PHOTO"
    by (simp_all add: ex_record_def ex_photo_def no_fields_def)
  have k: "Some NOTE \<in> Some ` set ContentType" "Some PHOTO \<in> Some ` set ContentType"
    by (simp_all add: ContentType_def)
  have q: "ex_record\<lparr> id_c := None \<rparr> = ex_record"
    by (simp add: ex_record_def no_fields_def)
  show ?thesis
    using convert_round_trip [where d = ex_record and item = ex_photo and tc = 1000 and tu = 2000
        and ?now1.0 = 5 and ?now2.0 = 6] f k
    by (simp add: r p q)
qed

text \<open>
  The claim C1 as stated fails on a record that already has every default filled in:
  decoding and encoding it replaces both of its times by the sentinel.
\<close>

theorem convert_round_trip_counterexample:
  "convertToContent 5 6 ex_record = Inr ex_decoded \<and>
   convertFromContent ex_decoded =
     Inr (ex_record\<lparr> createdAt := Some ServerTimestamp, updatedAt := Some ServerTimestamp \<rparr>) \<and>
   updatedAt ex_record = Some (Timestamp 2000) \<and>
   ex_record\<lparr> createdAt := Some ServerTimestamp, updatedAt := Some ServerTimestamp \<rparr> \<noteq> ex_record"
  by (simp add: convertToContent_def convertFromContent_def baseContent_def baseData_def
      millis_or_now_def no_fields_def or_cases ex_record_def ex_decoded_def kind_defs)

end
